theory Spec2Isabelle
  imports Complex_Main
begin

section \<open>Numbers and coordinates\<close>

text \<open>
  The JavaScript sources compute with IEEE doubles. Coordinates, distances and lengths are
  modelled as real numbers (finite values, exact arithmetic); an absent or
  \<^verbatim>\<open>undefined\<close> field is \<open>None\<close>. The theorems about searches and sums hold
  for whatever distances the formula yields; only the examples on a meridian and on the
  equator evaluate it.
\<close>

datatype error = TypeError | InvalidRouteData

record latlng =
  latitude :: real
  longitude :: real

record coordinate = latlng +
  height :: "real option"
  gradient :: "real option"

text \<open>\<^verbatim>\<open>Math.atan2(y, x)\<close> on finite arguments.\<close>

definition atan2 :: "real \<Rightarrow> real \<Rightarrow> real" where
  "atan2 y x =
     (if 0 < x then arctan (y / x)
      else if x < 0 then (if 0 \<le> y then arctan (y / x) + pi else arctan (y / x) - pi)
      else if 0 < y then pi / 2
      else if y < 0 then - (pi / 2)
      else 0)"

text \<open>\<^verbatim>\<open>calculateDistance\<close> (process\_trip.js and the playback server): Haversine, in meters.\<close>

definition calculateDistance :: "real \<Rightarrow> real \<Rightarrow> real \<Rightarrow> real \<Rightarrow> real" where
  "calculateDistance lat1 lon1 lat2 lon2 =
     (let R = 6371000;
          phi1 = lat1 * pi / 180;
          phi2 = lat2 * pi / 180;
          deltaPhi = (lat2 - lat1) * pi / 180;
          deltaLambda = (lon2 - lon1) * pi / 180;
          a = sin (deltaPhi / 2) * sin (deltaPhi / 2) +
              cos phi1 * cos phi2 * sin (deltaLambda / 2) * sin (deltaLambda / 2);
          c = 2 * atan2 (sqrt a) (sqrt (1 - a))
      in R * c)"

section \<open>Walking forward along the route (process\_trip.js)\<close>

text \<open>
  The \<^verbatim>\<open>while\<close> loop of \<^verbatim>\<open>followRoutePath\<close>. When the loop ends without
  returning, the function returns the last coordinate.
\<close>

definition lastCoord :: "coordinate list \<Rightarrow> latlng" where
  "lastCoord coordinates =
     \<lparr>latitude = latitude (coordinates ! (length coordinates - 1)),
      longitude = longitude (coordinates ! (length coordinates - 1))\<rparr>"

function followLoop :: "coordinate list \<Rightarrow> nat \<Rightarrow> real \<Rightarrow> latlng" where
  "followLoop coordinates currentIndex remainingDistance =
     (if currentIndex < length coordinates - 1 \<and> remainingDistance > 0 then
        (let current = coordinates ! currentIndex;
             next = coordinates ! (currentIndex + 1);
             segmentDistance = calculateDistance (latitude current) (longitude current)
                                 (latitude next) (longitude next)
         in if segmentDistance \<ge> remainingDistance then
              (let ratio = remainingDistance / segmentDistance
               in \<lparr>latitude = latitude current + (latitude next - latitude current) * ratio,
                   longitude = longitude current + (longitude next - longitude current) * ratio\<rparr>)
            else followLoop coordinates (currentIndex + 1) (remainingDistance - segmentDistance))
      else lastCoord coordinates)"
  by pat_completeness auto
termination
  by (relation "measure (\<lambda>(cs, i, r). length cs - i)") auto

declare followLoop.simps [simp del]

text \<open>
  \<^verbatim>\<open>followRoutePath\<close>. On an empty array \<^verbatim>\<open>coordinates[-1]\<close> is
  \<^verbatim>\<open>undefined\<close> and reading its latitude throws.
\<close>

definition followRoutePath :: "coordinate list \<Rightarrow> nat \<Rightarrow> real \<Rightarrow> error + latlng" where
  "followRoutePath coordinates startIndex distanceMeters =
     (if coordinates = [] then Inl TypeError
      else if startIndex \<ge> length coordinates - 1 then Inr (lastCoord coordinates)
      else Inr (followLoop coordinates startIndex distanceMeters))"

section \<open>Nearest-index search\<close>

text \<open>
  The scan shared, line for line, by \<^verbatim>\<open>findNearestCoordinateIndex\<close> (process\_trip.js)
  and \<^verbatim>\<open>findNearestRouteIndex\<close> (playback server). \<open>minDistance = None\<close> is
  \<^verbatim>\<open>Infinity\<close>, below which every real distance lies.
\<close>

function nearestLoop ::
  "coordinate list \<Rightarrow> real \<Rightarrow> real \<Rightarrow> nat \<Rightarrow> real option \<Rightarrow> nat \<Rightarrow> nat" where
  "nearestLoop coordinates targetLat targetLon i minDistance nearestIndex =
     (if i < length coordinates then
        (let coord = coordinates ! i;
             distance = calculateDistance targetLat targetLon (latitude coord) (longitude coord)
         in if (case minDistance of None \<Rightarrow> True | Some m \<Rightarrow> distance < m)
            then nearestLoop coordinates targetLat targetLon (i + 1) (Some distance) i
            else nearestLoop coordinates targetLat targetLon (i + 1) minDistance nearestIndex)
      else nearestIndex)"
  by pat_completeness auto
termination
  by (relation "measure (\<lambda>(cs, lat, lon, i, m, k). length cs - i)") auto

declare nearestLoop.simps [simp del]

definition findNearestCoordinateIndex :: "coordinate list \<Rightarrow> real \<Rightarrow> real \<Rightarrow> nat" where
  "findNearestCoordinateIndex coordinates targetLat targetLon =
     nearestLoop coordinates targetLat targetLon 0 None 0"

section \<open>Marker resolution (process\_trip.js)\<close>

text \<open>
  A marker object of the route file. The fields \<^verbatim>\<open>latitude\<close> and
  \<^verbatim>\<open>longitude\<close> of a marker are named \<open>markerLatitude\<close> and
  \<open>markerLongitude\<close> here, apart from the coordinate fields.
\<close>

record marker =
  stationName :: "string option"
  markerType :: "string option"
  detectedAt :: "latlng option"
  distanceAheadMeters :: "real option"
  timestamp :: "string option"
  platformLength :: "real option"
  onspot_latitude :: "real option"
  onspot_longitude :: "real option"
  onspot_timestamp :: "string option"
  spoton_distance :: "real option"
  markerLatitude :: "real option"
  markerLongitude :: "real option"
  calculationMethod :: "string option"
  isTimetableStation :: "bool option"

record stop =
  index :: nat
  destination :: string
  arrival :: string
  departure :: string
  platform :: string
  apiName :: string

record routeData =
  coordinates :: "coordinate list option"
  markers :: "marker list option"
  timetable :: "stop list option"

text \<open>JavaScript truthiness of an optional number and of an optional string.\<close>

definition truthyNum :: "real option \<Rightarrow> bool" where
  "truthyNum v = (case v of None \<Rightarrow> False | Some x \<Rightarrow> x \<noteq> 0)"

definition truthyStr :: "string option \<Rightarrow> bool" where
  "truthyStr v = (case v of None \<Rightarrow> False | Some x \<Rightarrow> x \<noteq> [])"

record counts =
  method1Count :: nat
  method2Count :: nat
  errorCount :: nat

text \<open>
  The body of the loop of \<^verbatim>\<open>processMarkers\<close> up to the clean-up: the timetable flag,
  the \<^verbatim>\<open>try\<close> block with its three branches and the \<^verbatim>\<open>catch\<close>.
\<close>

definition resolveMarker ::
  "coordinate list \<Rightarrow> string list \<Rightarrow> marker \<Rightarrow> counts \<Rightarrow> marker \<times> counts" where
  "resolveMarker coords timetableStations marker0 c =
     (let marker = marker0\<lparr>isTimetableStation :=
            Some (case stationName marker0 of None \<Rightarrow> False
                  | Some n \<Rightarrow> n \<in> set timetableStations)\<rparr>
      in if truthyNum (onspot_latitude marker) \<and> truthyNum (onspot_longitude marker) \<and>
            spoton_distance marker \<noteq> None then
           (let nearestIndex = findNearestCoordinateIndex coords
                  (the (onspot_latitude marker)) (the (onspot_longitude marker))
            in case followRoutePath coords nearestIndex (the (spoton_distance marker)) of
                 Inr position \<Rightarrow>
                   (marker\<lparr>markerLatitude := Some (latitude position),
                           markerLongitude := Some (longitude position),
                           calculationMethod := Some ''onspot''\<rparr>,
                    c\<lparr>method1Count := method1Count c + 1\<rparr>)
               | Inl e \<Rightarrow>
                   (marker\<lparr>calculationMethod := Some ''error''\<rparr>,
                    c\<lparr>errorCount := errorCount c + 1\<rparr>))
         else if (case detectedAt marker of None \<Rightarrow> False
                  | Some d \<Rightarrow> latitude d \<noteq> 0 \<and> longitude d \<noteq> 0) \<and>
                 distanceAheadMeters marker \<noteq> None then
           (let nearestIndex = findNearestCoordinateIndex coords
                  (latitude (the (detectedAt marker))) (longitude (the (detectedAt marker)))
            in case followRoutePath coords nearestIndex (the (distanceAheadMeters marker)) of
                 Inr position \<Rightarrow>
                   (marker\<lparr>markerLatitude := Some (latitude position),
                           markerLongitude := Some (longitude position),
                           calculationMethod := Some ''detectedAt''\<rparr>,
                    c\<lparr>method2Count := method2Count c + 1\<rparr>)
               | Inl e \<Rightarrow>
                   (marker\<lparr>calculationMethod := Some ''error''\<rparr>,
                    c\<lparr>errorCount := errorCount c + 1\<rparr>))
         else (marker\<lparr>calculationMethod := Some ''none''\<rparr>,
               c\<lparr>errorCount := errorCount c + 1\<rparr>))"

text \<open>The nine \<^verbatim>\<open>delete\<close> statements that end the loop body.\<close>

definition cleanUp :: "marker \<Rightarrow> marker" where
  "cleanUp marker =
     marker\<lparr>detectedAt := None, distanceAheadMeters := None, timestamp := None,
            platformLength := None, calculationMethod := None, onspot_latitude := None,
            onspot_longitude := None, onspot_timestamp := None, spoton_distance := None\<rparr>"

fun processLoop ::
  "coordinate list \<Rightarrow> string list \<Rightarrow> marker list \<Rightarrow> counts \<Rightarrow> marker list \<times> counts" where
  "processLoop coords timetableStations [] c = ([], c)"
| "processLoop coords timetableStations (m # ms) c =
     (let (m', c') = resolveMarker coords timetableStations m c;
          (ms', c'') = processLoop coords timetableStations ms c'
      in (cleanUp m' # ms', c''))"

text \<open>
  \<^verbatim>\<open>processMarkers\<close>: the data with its markers rewritten in place, the three counters
  of the printed summary, and the returned number of resolved markers.
\<close>

definition processMarkers ::
  "routeData \<Rightarrow> string list \<Rightarrow> error + (routeData \<times> counts \<times> nat)" where
  "processMarkers data timetableStations =
     (case coordinates data of
        None \<Rightarrow> Inl InvalidRouteData
      | Some coords \<Rightarrow>
          if coords = [] then Inl InvalidRouteData
          else (case markers data of
                  None \<Rightarrow> Inr (data, \<lparr>method1Count = 0, method2Count = 0, errorCount = 0\<rparr>, 0)
                | Some ms \<Rightarrow>
                    (let (ms', c) = processLoop coords timetableStations ms
                                      \<lparr>method1Count = 0, method2Count = 0, errorCount = 0\<rparr>
                     in Inr (data\<lparr>markers := Some ms'\<rparr>, c, method1Count c + method2Count c))))"

section \<open>Route projection (playback server)\<close>

definition findNearestRouteIndex :: "routeData option \<Rightarrow> real \<Rightarrow> real \<Rightarrow> int" where
  "findNearestRouteIndex loadedRouteData lat lon =
     (case loadedRouteData of
        None \<Rightarrow> - 1
      | Some d \<Rightarrow>
          (case coordinates d of
             None \<Rightarrow> - 1
           | Some coords \<Rightarrow> int (nearestLoop coords lat lon 0 None 0)))"

text \<open>
  The summation loop of \<^verbatim>\<open>calculateDistanceAlongRoute\<close>; reading a coordinate past
  the end of the array yields \<^verbatim>\<open>undefined\<close>, whose latitude cannot be read.
\<close>

function sumLoop :: "coordinate list \<Rightarrow> nat \<Rightarrow> nat \<Rightarrow> real \<Rightarrow> error + real" where
  "sumLoop coords i markerIndex totalDistance =
     (if i < markerIndex then
        (if i + 1 < length coords then
           (let coord1 = coords ! i; coord2 = coords ! (i + 1)
            in sumLoop coords (i + 1) markerIndex
                 (totalDistance + calculateDistance (latitude coord1) (longitude coord1)
                                    (latitude coord2) (longitude coord2)))
         else Inl TypeError)
      else Inr totalDistance)"
  by pat_completeness auto
termination
  by (relation "measure (\<lambda>(cs, i, m, t). m - i)") auto

declare sumLoop.simps [simp del]

text \<open>\<^verbatim>\<open>calculateDistanceAlongRoute\<close>; \<open>Inr None\<close> is the returned \<^verbatim>\<open>null\<close>.\<close>

definition calculateDistanceAlongRoute ::
  "routeData option \<Rightarrow> real \<Rightarrow> real \<Rightarrow> real \<Rightarrow> real \<Rightarrow> error + real option" where
  "calculateDistanceAlongRoute loadedRouteData playerLat playerLon markerLat markerLon =
     (case loadedRouteData of
        None \<Rightarrow> Inr None
      | Some d \<Rightarrow>
          (case coordinates d of
             None \<Rightarrow> Inr None
           | Some coords \<Rightarrow>
               (let playerIndex = findNearestRouteIndex loadedRouteData playerLat playerLon;
                    markerIndex = findNearestRouteIndex loadedRouteData markerLat markerLon
                in if playerIndex = - 1 \<or> markerIndex = - 1 then Inr None
                   else if markerIndex \<le> playerIndex then Inr (Some 0)
                   else (case sumLoop coords (nat playerIndex) (nat markerIndex) 0 of
                           Inl e \<Rightarrow> Inl e
                         | Inr totalDistance \<Rightarrow> Inr (Some totalDistance)))))"

record nextMarker =
  nmName :: "string option"
  nmLatitude :: "real option"
  nmLongitude :: "real option"
  nmType :: "string option"

text \<open>\<^verbatim>\<open>a || b\<close> on optional numbers.\<close>

definition orElse :: "real option \<Rightarrow> real option \<Rightarrow> real option" where
  "orElse a b = (if truthyNum a then a else b)"

definition getNextTimetableMarker :: "routeData option \<Rightarrow> string option \<Rightarrow> nextMarker option" where
  "getNextTimetableMarker loadedRouteData targetApiName =
     (if \<not> truthyStr targetApiName then None
      else case loadedRouteData of
        None \<Rightarrow> None
      | Some d \<Rightarrow>
          (case markers d of
             None \<Rightarrow> None
           | Some ms \<Rightarrow>
               (case find (\<lambda>m. stationName m = targetApiName) ms of
                  None \<Rightarrow> None
                | Some marker \<Rightarrow>
                    Some \<lparr>nmName = stationName marker,
                          nmLatitude = orElse (markerLatitude marker)
                                         (map_option latitude (detectedAt marker)),
                          nmLongitude = orElse (markerLongitude marker)
                                          (map_option longitude (detectedAt marker)),
                          nmType = markerType marker\<rparr>)))"

text \<open>\<^verbatim>\<open>Math.round\<close>: to the nearest integer, halves upwards.\<close>

definition mathRound :: "real \<Rightarrow> int" where
  "mathRound x = \<lfloor>x + 1 / 2\<rfloor>"

text \<open>
  The part of the playback tick that fills \<^verbatim>\<open>streamData.distanceToStation\<close>, which
  starts as \<^verbatim>\<open>null\<close>, from the target of the timetable display and the player position.
\<close>

definition tickDistanceToStation ::
  "routeData option \<Rightarrow> string option \<Rightarrow> latlng option \<Rightarrow> error + int option" where
  "tickDistanceToStation loadedRouteData targetApiName currentPlayerPosition =
     (if truthyStr targetApiName \<and> currentPlayerPosition \<noteq> None then
        (case getNextTimetableMarker loadedRouteData targetApiName of
           None \<Rightarrow> Inr None
         | Some nm \<Rightarrow>
             if truthyNum (nmLatitude nm) \<and> truthyNum (nmLongitude nm) then
               (case calculateDistanceAlongRoute loadedRouteData
                       (latitude (the currentPlayerPosition)) (longitude (the currentPlayerPosition))
                       (the (nmLatitude nm)) (the (nmLongitude nm)) of
                  Inl e \<Rightarrow> Inl e
                | Inr None \<Rightarrow> Inr None
                | Inr (Some distance) \<Rightarrow> Inr (Some (mathRound distance)))
             else Inr None)
      else Inr None)"

section \<open>Timetable display (live and playback servers)\<close>

text \<open>\<^verbatim>\<open>String.prototype.split\<close> with a one-character separator.\<close>

fun splitOn :: "char \<Rightarrow> string \<Rightarrow> string list" where
  "splitOn c [] = [[]]"
| "splitOn c (x # xs) =
     (if x = c then [] # splitOn c xs
      else (case splitOn c xs of
              [] \<Rightarrow> [[x]]
            | p # ps \<Rightarrow> (x # p) # ps))"

text \<open>
  A number computed from clock strings: an integer or \<^verbatim>\<open>NaN\<close>. A value that may
  also be \<^verbatim>\<open>null\<close> is a \<open>jsnum option\<close>.
\<close>

datatype jsnum = NaN | Num int

definition isWhiteSpace :: "char \<Rightarrow> bool" where
  "isWhiteSpace c = (c \<in> set [CHR '' '', CHR 0x09, CHR 0x0A, CHR 0x0B, CHR 0x0C, CHR 0x0D])"

definition digitValue :: "nat \<Rightarrow> char \<Rightarrow> nat option" where
  "digitValue radix c =
     (let n = (of_char c :: nat);
          v = (if 48 \<le> n \<and> n \<le> 57 then Some (n - 48)
               else if 97 \<le> n \<and> n \<le> 122 then Some (n - 87)
               else if 65 \<le> n \<and> n \<le> 90 then Some (n - 55)
               else None)
      in case v of None \<Rightarrow> None | Some d \<Rightarrow> if d < radix then Some d else None)"

text \<open>
  \<^verbatim>\<open>parseInt\<close> with no radix argument, on ASCII text: leading white space, a sign,
  a hexadecimal prefix, then the longest run of digits; \<^verbatim>\<open>NaN\<close> when there is none.
\<close>

definition parseInt :: "string \<Rightarrow> jsnum" where
  "parseInt str =
     (let s1 = dropWhile isWhiteSpace str;
          negative = (s1 \<noteq> [] \<and> hd s1 = CHR ''-'');
          s2 = (if s1 \<noteq> [] \<and> (hd s1 = CHR ''-'' \<or> hd s1 = CHR ''+'') then tl s1 else s1);
          hex = (take 2 s2 = ''0x'' \<or> take 2 s2 = ''0X'');
          radix = (if hex then 16 else 10);
          s3 = (if hex then drop 2 s2 else s2);
          digits = takeWhile (\<lambda>c. digitValue radix c \<noteq> None) s3;
          magnitude = foldl (\<lambda>acc c. acc * radix + the (digitValue radix c)) 0 digits
      in if digits = [] then NaN
         else Num (if negative then - int magnitude else int magnitude))"

text \<open>\<^verbatim>\<open>parseInt(parts[k])\<close>: a missing part is \<^verbatim>\<open>undefined\<close>, which parses to \<^verbatim>\<open>NaN\<close>.\<close>

definition parsePart :: "string list \<Rightarrow> nat \<Rightarrow> jsnum" where
  "parsePart parts k = (if k < length parts then parseInt (parts ! k) else NaN)"

fun jsTimes :: "jsnum \<Rightarrow> jsnum \<Rightarrow> jsnum" where
  "jsTimes (Num a) (Num b) = Num (a * b)"
| "jsTimes _ _ = NaN"

fun jsPlus :: "jsnum \<Rightarrow> jsnum \<Rightarrow> jsnum" where
  "jsPlus (Num a) (Num b) = Num (a + b)"
| "jsPlus _ _ = NaN"

definition timeToSeconds :: "string \<Rightarrow> jsnum option" where
  "timeToSeconds timeStr =
     (if timeStr = [] then None
      else (let parts = splitOn CHR '':'' timeStr
            in Some (jsPlus (jsPlus (jsTimes (parsePart parts 0) (Num 3600))
                                    (jsTimes (parsePart parts 1) (Num 60)))
                            (parsePart parts 2))))"

text \<open>
  The relational operators convert \<^verbatim>\<open>null\<close> to 0 and are false on \<^verbatim>\<open>NaN\<close>;
  \<^verbatim>\<open>null\<close>, 0 and \<^verbatim>\<open>NaN\<close> are falsy.
\<close>

fun toNumber :: "jsnum option \<Rightarrow> jsnum" where
  "toNumber None = Num 0"
| "toNumber (Some v) = v"

definition jsLess :: "jsnum option \<Rightarrow> jsnum option \<Rightarrow> bool" where
  "jsLess a b = (case (toNumber a, toNumber b) of (Num x, Num y) \<Rightarrow> x < y | _ \<Rightarrow> False)"

definition jsGreaterEq :: "jsnum option \<Rightarrow> jsnum option \<Rightarrow> bool" where
  "jsGreaterEq a b = (case (toNumber a, toNumber b) of (Num x, Num y) \<Rightarrow> x \<ge> y | _ \<Rightarrow> False)"

definition truthySeconds :: "jsnum option \<Rightarrow> bool" where
  "truthySeconds v = (case v of Some (Num n) \<Rightarrow> n \<noteq> 0 | _ \<Rightarrow> False)"

record display =
  time :: "string option"
  label :: "string option"
  targetApiName :: "string option"
  showDistance :: bool

definition nullDisplay :: display where
  "nullDisplay = \<lparr>time = None, label = None, targetApiName = None, showDistance = False\<rparr>"

definition departureDisplay :: "stop \<Rightarrow> display" where
  "departureDisplay s =
     \<lparr>time = Some (departure s), label = Some ''DEPARTURE'', targetApiName = None,
      showDistance = False\<rparr>"

definition arrivalDisplay :: "stop \<Rightarrow> display" where
  "arrivalDisplay s =
     \<lparr>time = Some (arrival s), label = Some (destination s), targetApiName = Some (apiName s),
      showDistance = True\<rparr>"

text \<open>The \<^verbatim>\<open>for\<close> loop of \<^verbatim>\<open>getTimetableDisplay\<close> and the return that follows it.\<close>

function timetableLoop :: "stop list \<Rightarrow> jsnum option \<Rightarrow> nat \<Rightarrow> display" where
  "timetableLoop timetableData currentSeconds i =
     (if i < length timetableData then
        (let stop = timetableData ! i;
             departureSeconds = timeToSeconds (departure stop)
         in if i = 0 \<and> jsLess currentSeconds departureSeconds then departureDisplay stop
            else if i = length timetableData - 1 then arrivalDisplay stop
            else if truthySeconds departureSeconds \<and> jsLess currentSeconds departureSeconds
              then departureDisplay stop
            else if i < length timetableData - 1 then
              (let nextStop = timetableData ! (i + 1);
                   nextArrivalSeconds = timeToSeconds (arrival nextStop)
               in if jsGreaterEq currentSeconds departureSeconds \<and>
                     jsLess currentSeconds nextArrivalSeconds then arrivalDisplay nextStop
                  else if jsGreaterEq currentSeconds nextArrivalSeconds \<and>
                          (let nextDepartureSeconds = timeToSeconds (departure nextStop)
                           in truthySeconds nextDepartureSeconds \<and>
                              jsLess currentSeconds nextDepartureSeconds)
                    then departureDisplay nextStop
                  else timetableLoop timetableData currentSeconds (i + 1))
            else timetableLoop timetableData currentSeconds (i + 1))
      else nullDisplay)"
  by pat_completeness auto
termination
  by (relation "measure (\<lambda>(tt, cur, i). length tt - i)") auto

declare timetableLoop.simps [simp del]

text \<open>
  The time of day inside an ISO 8601 string: the text after the first \<open>T\<close>, up to the first
  dot. Without a \<open>T\<close> the second piece is \<^verbatim>\<open>undefined\<close> and splitting it throws.
\<close>

definition timePart :: "string \<Rightarrow> error + string" where
  "timePart currentTimeISO =
     (case splitOn CHR ''T'' currentTimeISO of
        _ # t # _ \<Rightarrow> Inr (hd (splitOn CHR ''.'' t))
      | _ \<Rightarrow> Inl TypeError)"

text \<open>\<^verbatim>\<open>getTimetableDisplay\<close>: the \<^verbatim>\<open>catch\<close> clause returns the all-null display.\<close>

definition getTimetableDisplay :: "stop list \<Rightarrow> string \<Rightarrow> display" where
  "getTimetableDisplay timetableData currentTimeISO =
     (if length timetableData = 0 \<or> currentTimeISO = [] then nullDisplay
      else (case timePart currentTimeISO of
              Inl e \<Rightarrow> nullDisplay
            | Inr tp \<Rightarrow> timetableLoop timetableData (timeToSeconds tp) 0))"

section \<open>Distance to the target station in the live tick\<close>

record trackItem =
  itemStationName :: "string option"
  distanceToStationCM :: "real option"

record trackValues =
  stations :: "trackItem list option"
  trackMarkers :: "trackItem list option"

record entry =
  Path :: string
  NodeValid :: bool
  Values :: "trackValues option"

record hud =
  lastDistanceToStation :: "int option"
  lastTargetApiName :: "string option"

text \<open>The test on the target at the head of the distance code: a new target clears the distance.\<close>

definition resetOnNewTarget :: "display \<Rightarrow> hud \<Rightarrow> hud" where
  "resetOnNewTarget timetableDisplay s =
     (if targetApiName timetableDisplay \<noteq> lastTargetApiName s
      then s\<lparr>lastTargetApiName := targetApiName timetableDisplay, lastDistanceToStation := None\<rparr>
      else s)"

text \<open>
  A scan of one array of stations or markers: it stops at the first item named as the target
  and records its distance when that is a number. The flag tells whether one was recorded.
\<close>

definition scanItems :: "string option \<Rightarrow> trackItem list \<Rightarrow> hud \<Rightarrow> hud \<times> bool" where
  "scanItems target items s =
     (case find (\<lambda>it. itemStationName it = target) items of
        None \<Rightarrow> (s, False)
      | Some it \<Rightarrow>
          (case distanceToStationCM it of
             None \<Rightarrow> (s, False)
           | Some cm \<Rightarrow> (s\<lparr>lastDistanceToStation := Some (mathRound (cm / 100))\<rparr>, True)))"

text \<open>The first valid track-data entry is searched, stations before markers, then the loop breaks.\<close>

definition extractDistance :: "entry list option \<Rightarrow> display \<Rightarrow> hud \<Rightarrow> hud" where
  "extractDistance entries timetableDisplay s =
     (if entries \<noteq> None \<and> truthyStr (targetApiName timetableDisplay) then
        (case find (\<lambda>e. Path e = ''DriverAid.TrackData'' \<and> NodeValid e \<and> Values e \<noteq> None)
                (the entries) of
           None \<Rightarrow> s
         | Some e \<Rightarrow>
             (let (s1, foundDistance) =
                    (case stations (the (Values e)) of
                       None \<Rightarrow> (s, False)
                     | Some sts \<Rightarrow> scanItems (targetApiName timetableDisplay) sts s)
              in if \<not> foundDistance then
                   (case trackMarkers (the (Values e)) of
                      None \<Rightarrow> s1
                    | Some mks \<Rightarrow> fst (scanItems (targetApiName timetableDisplay) mks s1))
                 else s1))
      else s)"

record tickOutput =
  timetableTime :: "string option"
  timetableLabel :: "string option"
  distanceToStation :: "int option"

text \<open>
  The end of a tick of the live server: \<open>localTime\<close> is the time string found in this
  tick's entries, if any. The three output fields start as \<^verbatim>\<open>null\<close>.
\<close>

definition tick ::
  "stop list \<Rightarrow> string option \<Rightarrow> entry list option \<Rightarrow> hud \<Rightarrow> hud \<times> tickOutput" where
  "tick timetableData localTime entries s =
     (if truthyStr localTime then
        (let timetableDisplay = getTimetableDisplay timetableData (the localTime);
             s1 = resetOnNewTarget timetableDisplay s;
             s2 = extractDistance entries timetableDisplay s1
         in (s2, \<lparr>timetableTime = time timetableDisplay,
                   timetableLabel = label timetableDisplay,
                   distanceToStation =
                     (if showDistance timetableDisplay \<and> lastDistanceToStation s2 \<noteq> None
                      then lastDistanceToStation s2 else None)\<rparr>))
      else (s, \<lparr>timetableTime = None, timetableLabel = None, distanceToStation = None\<rparr>))"

section \<open>Recording the route (live server)\<close>

record geoLocation =
  geoLongitude :: "real option"
  geoLatitude :: "real option"

record recorder =
  routeCoordinates :: "coordinate list"
  lastRouteCoordinate :: "coordinate option"
  routeCollectionRequestCount :: nat
  currentPlayerPosition :: "coordinate option"
  currentGradient :: "real option"
  currentHeight :: "real option"
  routeOutputFilePath :: "string option"
  savedCoordinates :: "coordinate list option"

text \<open>
  \<^verbatim>\<open>saveRouteData\<close>, as far as the coordinates go: \<open>savedCoordinates\<close> is the
  coordinate array of the file as last written.
\<close>

definition saveRouteData :: "recorder \<Rightarrow> recorder" where
  "saveRouteData s =
     (if routeOutputFilePath s = None \<or> routeCoordinates s = [] then s
      else s\<lparr>savedCoordinates := Some (routeCoordinates s)\<rparr>)"

text \<open>
  The handler of a \<^verbatim>\<open>DriverAid.PlayerInfo\<close> entry with route collection enabled. A
  field of \<open>geoLocation\<close> is \<open>None\<close> when it is not a number.
\<close>

definition observePlayerInfo :: "geoLocation option \<Rightarrow> recorder \<Rightarrow> recorder" where
  "observePlayerInfo geo s =
     (case geo of
        None \<Rightarrow> s
      | Some g \<Rightarrow>
          (case (geoLongitude g, geoLatitude g) of
             (Some lon, Some lat) \<Rightarrow>
               (let coordinate = \<lparr>latitude = lat, longitude = lon,
                                  height = currentHeight s, gradient = currentGradient s\<rparr>;
                    s1 = s\<lparr>currentPlayerPosition := Some coordinate\<rparr>
                in if (case lastRouteCoordinate s1 of
                         None \<Rightarrow> True
                       | Some l \<Rightarrow> longitude l \<noteq> longitude coordinate \<or>
                                   latitude l \<noteq> latitude coordinate)
                   then saveRouteData
                          (s1\<lparr>routeCoordinates := routeCoordinates s1 @ [coordinate],
                              lastRouteCoordinate := Some coordinate,
                              routeCollectionRequestCount := routeCollectionRequestCount s1 + 1\<rparr>)
                   else s1)
           | _ \<Rightarrow> s))"

definition initialRecorder :: "string option \<Rightarrow> recorder" where
  "initialRecorder path =
     \<lparr>routeCoordinates = [], lastRouteCoordinate = None, routeCollectionRequestCount = 0,
      currentPlayerPosition = None, currentGradient = None, currentHeight = None,
      routeOutputFilePath = path, savedCoordinates = None\<rparr>"

text \<open>
  An observation as the recorder meets it: the handlers of the gradient and of the height
  may have stored new values since the last position, then the position handler runs.
\<close>

definition observePosition ::
  "geoLocation option \<times> real option \<times> real option \<Rightarrow> recorder \<Rightarrow> recorder" where
  "observePosition obs s =
     (case obs of (geo, elevation, grad) \<Rightarrow>
        observePlayerInfo geo (s\<lparr>currentGradient := grad, currentHeight := elevation\<rparr>))"

definition observeAll ::
  "(geoLocation option \<times> real option \<times> real option) list \<Rightarrow> recorder \<Rightarrow> recorder" where
  "observeAll observations s = foldl (\<lambda>acc obs. observePosition obs acc) s observations"

section \<open>Notions used in the statements\<close>

text \<open>Distance from the query point to vertex \<open>j\<close>, and the length of the segment that starts at vertex \<open>i\<close>.\<close>

definition distTo :: "coordinate list \<Rightarrow> real \<Rightarrow> real \<Rightarrow> nat \<Rightarrow> real" where
  "distTo coords lat lon j = calculateDistance lat lon (latitude (coords ! j)) (longitude (coords ! j))"

definition segmentLength :: "coordinate list \<Rightarrow> nat \<Rightarrow> real" where
  "segmentLength coords i =
     calculateDistance (latitude (coords ! i)) (longitude (coords ! i))
       (latitude (coords ! (i + 1))) (longitude (coords ! (i + 1)))"

text \<open>The point at fraction \<open>ratio\<close> of the segment that starts at vertex \<open>k\<close>.\<close>

definition pointAt :: "coordinate list \<Rightarrow> nat \<Rightarrow> real \<Rightarrow> latlng" where
  "pointAt coords k ratio =
     \<lparr>latitude = latitude (coords ! k) +
                   (latitude (coords ! (k + 1)) - latitude (coords ! k)) * ratio,
      longitude = longitude (coords ! k) +
                    (longitude (coords ! (k + 1)) - longitude (coords ! k)) * ratio\<rparr>"

text \<open>The length of the path from vertex \<open>i\<close> to vertex \<open>k\<close>.\<close>

definition pathLength :: "coordinate list \<Rightarrow> nat \<Rightarrow> nat \<Rightarrow> real" where
  "pathLength coords i k = (\<Sum>l = i..<k. segmentLength coords l)"

text \<open>The length in meters of an arc of \<open>deg\<close> degrees of a great circle of the Earth.\<close>

definition arcMeters :: "real \<Rightarrow> real" where
  "arcMeters deg = 6371000 * (deg * pi / 180)"

text \<open>What the scan has established after looking at the vertices below \<open>i\<close>.\<close>

definition scanned ::
  "coordinate list \<Rightarrow> real \<Rightarrow> real \<Rightarrow> nat \<Rightarrow> real option \<Rightarrow> nat \<Rightarrow> bool" where
  "scanned coords lat lon i minDistance best =
     (case minDistance of
        None \<Rightarrow> i = 0
      | Some m \<Rightarrow> best < i \<and> m = distTo coords lat lon best \<and>
                 (\<forall>j<i. m \<le> distTo coords lat lon j) \<and>
                 (\<forall>j<best. m < distTo coords lat lon j))"

text \<open>No two neighbours of the list have the same latitude and the same longitude.\<close>

fun noConsecutiveEqual :: "coordinate list \<Rightarrow> bool" where
  "noConsecutiveEqual [] = True"
| "noConsecutiveEqual [x] = True"
| "noConsecutiveEqual (x # y # rest) =
     (\<not> (latitude x = latitude y \<and> longitude x = longitude y) \<and> noConsecutiveEqual (y # rest))"

text \<open>The recorder's last coordinate is the last entry of its list.\<close>

definition lastMatches :: "recorder \<Rightarrow> bool" where
  "lastMatches s =
     (case lastRouteCoordinate s of
        None \<Rightarrow> routeCoordinates s = []
      | Some l \<Rightarrow> routeCoordinates s \<noteq> [] \<and> last (routeCoordinates s) = l)"

text \<open>
  A timetable in chronological order: its times of day, read stop after stop (arrival, then
  departure), are numbers from 0 on that never decrease; an empty time string is passed over.
\<close>

definition schedule :: "stop list \<Rightarrow> jsnum option list" where
  "schedule timetableData =
     concat (map (\<lambda>s. [timeToSeconds (arrival s), timeToSeconds (departure s)]) timetableData)"

fun chronoFrom :: "int \<Rightarrow> jsnum option list \<Rightarrow> bool" where
  "chronoFrom lo [] = True"
| "chronoFrom lo (None # ts) = chronoFrom lo ts"
| "chronoFrom lo (Some NaN # ts) = False"
| "chronoFrom lo (Some (Num x) # ts) = (lo \<le> x \<and> chronoFrom x ts)"

definition chronological :: "stop list \<Rightarrow> bool" where
  "chronological timetableData = chronoFrom 0 (schedule timetableData)"

text \<open>
  The rounded distances that one tick's telemetry reports for a target: those of the items
  named as the target, in the stations and the markers of its entries.
\<close>

definition itemDistances :: "string option \<Rightarrow> trackItem list option \<Rightarrow> int list" where
  "itemDistances target items =
     (case items of
        None \<Rightarrow> []
      | Some its \<Rightarrow>
          concat (map (\<lambda>it. if itemStationName it = target
                             then (case distanceToStationCM it of
                                     None \<Rightarrow> []
                                   | Some cm \<Rightarrow> [mathRound (cm / 100)])
                             else []) its))"

definition reportedNow :: "entry list option \<Rightarrow> string option \<Rightarrow> int list" where
  "reportedNow entries target =
     (case entries of
        None \<Rightarrow> []
      | Some es \<Rightarrow>
          concat (map (\<lambda>e. case Values e of
                              None \<Rightarrow> []
                            | Some v \<Rightarrow> itemDistances target (stations v) @
                                        itemDistances target (trackMarkers v)) es))"

section \<open>The nearest-index search and the distance along the route\<close>

lemma nearestLoop_step:
  "nearestLoop cs lat lon i minD best =
     (if i < length cs then
        (if (case minD of None \<Rightarrow> True | Some m \<Rightarrow> distTo cs lat lon i < m)
         then nearestLoop cs lat lon (Suc i) (Some (distTo cs lat lon i)) i
         else nearestLoop cs lat lon (Suc i) minD best)
      else best)"
  by (cases minD; subst nearestLoop.simps; simp add: Let_def distTo_def)

lemma scanned_better:
  assumes "scanned cs lat lon i minD best"
    and "case minD of None \<Rightarrow> True | Some m \<Rightarrow> distTo cs lat lon i < m"
  shows "scanned cs lat lon (Suc i) (Some (distTo cs lat lon i)) i"
  using assms by (cases minD) (auto simp: scanned_def less_Suc_eq)

lemma scanned_worse:
  assumes "scanned cs lat lon i minD best"
    and "\<not> (case minD of None \<Rightarrow> True | Some m \<Rightarrow> distTo cs lat lon i < m)"
  shows "scanned cs lat lon (Suc i) minD best"
  using assms by (cases minD) (auto simp: scanned_def less_Suc_eq)

lemma nearestLoop_scanned:
  assumes "scanned cs lat lon i minD best" "i \<le> length cs" "cs \<noteq> []"
  shows "scanned cs lat lon (length cs) (Some (distTo cs lat lon (nearestLoop cs lat lon i minD best)))
           (nearestLoop cs lat lon i minD best)"
  using assms
proof (induction "length cs - i" arbitrary: i minD best)
  case 0
  then have "i = length cs" by simp
  with 0 show ?case
    by (cases minD) (auto simp: nearestLoop_step scanned_def)
next
  case (Suc n)
  then have lt: "i < length cs" and n: "n = length cs - Suc i" and le: "Suc i \<le> length cs"
    by simp_all
  show ?case
  proof (cases "case minD of None \<Rightarrow> True | Some m \<Rightarrow> distTo cs lat lon i < m")
    case True
    have "nearestLoop cs lat lon i minD best = nearestLoop cs lat lon (Suc i) (Some (distTo cs lat lon i)) i"
      using True lt by (subst nearestLoop_step) simp
    with Suc.hyps(1)[OF n scanned_better[OF Suc.prems(1) True] le Suc.prems(3)]
    show ?thesis by simp
  next
    case False
    have "nearestLoop cs lat lon i minD best = nearestLoop cs lat lon (Suc i) minD best"
      using False lt by (subst nearestLoop_step) simp
    with Suc.hyps(1)[OF n scanned_worse[OF Suc.prems(1) False] le Suc.prems(3)]
    show ?thesis by simp
  qed
qed

lemma nearest_scan_result:
  assumes "cs \<noteq> []"
  shows "nearestLoop cs lat lon 0 None 0 < length cs"
    and "\<forall>j<length cs. distTo cs lat lon (nearestLoop cs lat lon 0 None 0) \<le> distTo cs lat lon j"
    and "\<forall>j<nearestLoop cs lat lon 0 None 0.
           distTo cs lat lon (nearestLoop cs lat lon 0 None 0) < distTo cs lat lon j"
proof -
  have "scanned cs lat lon 0 None 0" by (simp add: scanned_def)
  from nearestLoop_scanned[OF this _ assms]
  show "nearestLoop cs lat lon 0 None 0 < length cs"
    and "\<forall>j<length cs. distTo cs lat lon (nearestLoop cs lat lon 0 None 0) \<le> distTo cs lat lon j"
    and "\<forall>j<nearestLoop cs lat lon 0 None 0.
           distTo cs lat lon (nearestLoop cs lat lon 0 None 0) < distTo cs lat lon j"
    by (simp_all add: scanned_def)
qed

text \<open>
  C7: on a non-empty polyline the nearest-index search returns an index of the polyline whose
  distance to the query point is the least of all vertices, and every vertex before it is
  strictly farther: it is the lowest index that attains the minimum. The search of the
  playback server returns the same index on a loaded route with these coordinates. Both are
  functions of the polyline and the query point, so equal inputs give equal indices.
\<close>

theorem nearest_index_lowest_minimum:
  assumes "coords \<noteq> []"
  shows "findNearestCoordinateIndex coords lat lon < length coords \<and>
    (\<forall>j<length coords.
       distTo coords lat lon (findNearestCoordinateIndex coords lat lon) \<le> distTo coords lat lon j) \<and>
    (\<forall>j<findNearestCoordinateIndex coords lat lon.
       distTo coords lat lon (findNearestCoordinateIndex coords lat lon) < distTo coords lat lon j) \<and>
    findNearestRouteIndex (Some \<lparr>coordinates = Some coords, markers = ms, timetable = tt\<rparr>) lat lon =
      int (findNearestCoordinateIndex coords lat lon)"
  using nearest_scan_result[OF assms, of lat lon]
  by (simp add: findNearestCoordinateIndex_def findNearestRouteIndex_def)

theorem nearest_index_lowest_minimum_witness:
  "[\<lparr>latitude = 5, longitude = 7, height = None, gradient = None\<rparr>,
    \<lparr>latitude = 5, longitude = 7, height = None, gradient = None\<rparr>] \<noteq> [] \<and>
   findNearestCoordinateIndex
     [\<lparr>latitude = 5, longitude = 7, height = None, gradient = None\<rparr>,
      \<lparr>latitude = 5, longitude = 7, height = None, gradient = None\<rparr>] 5 7 = 0"
proof -
  let ?c = "\<lparr>latitude = 5, longitude = 7, height = None, gradient = None\<rparr>"
  let ?k = "findNearestCoordinateIndex [?c, ?c] 5 7"
  have ne: "[?c, ?c] \<noteq> []" by simp
  from nearest_index_lowest_minimum[OF ne, of 5 7]
  have lt: "?k < length [?c, ?c]"
    and strict: "\<forall>j<?k. distTo [?c, ?c] 5 7 ?k < distTo [?c, ?c] 5 7 j"
    by blast+
  have "?k = 0"
  proof (rule ccontr)
    assume "?k \<noteq> 0"
    with lt have k1: "?k = 1" by simp
    with strict have "distTo [?c, ?c] 5 7 1 < distTo [?c, ?c] 5 7 0" by simp
    then show False by (simp add: distTo_def)
  qed
  with ne show ?thesis by simp
qed

lemma sumLoop_sum:
  assumes "i \<le> m" "m < length cs"
  shows "sumLoop cs i m t = Inr (t + (\<Sum>k = i..<m. segmentLength cs k))"
  using assms
proof (induction "m - i" arbitrary: i t)
  case 0
  then show ?case by (subst sumLoop.simps) simp
next
  case (Suc n)
  then have lt: "i < m" and n: "n = m - Suc i" by simp_all
  have "sumLoop cs i m t = sumLoop cs (Suc i) m (t + segmentLength cs i)"
    using lt Suc.prems by (subst sumLoop.simps) (simp add: Let_def segmentLength_def)
  also have "\<dots> = Inr (t + segmentLength cs i + (\<Sum>k = Suc i..<m. segmentLength cs k))"
    using Suc.hyps(1)[OF n _ Suc.prems(2), of "t + segmentLength cs i"] lt by simp
  also have "\<dots> = Inr (t + (\<Sum>k = i..<m. segmentLength cs k))"
    using lt by (simp add: sum.atLeast_Suc_lessThan)
  finally show ?case .
qed

text \<open>
  C2: on a loaded route that has a coordinate list, the distance along the route is exactly 0
  (a number, not \<^verbatim>\<open>null\<close>) when the marker's nearest index is at most the player's,
  and otherwise the sum of the lengths of all segments from the player's index up to the
  marker's index.
\<close>

theorem distance_along_route:
  assumes "loadedRouteData = Some d" and "coordinates d = Some coords"
  shows "calculateDistanceAlongRoute loadedRouteData playerLat playerLon markerLat markerLon =
     (if findNearestRouteIndex loadedRouteData markerLat markerLon
           \<le> findNearestRouteIndex loadedRouteData playerLat playerLon
      then Inr (Some 0)
      else Inr (Some (\<Sum>k = nat (findNearestRouteIndex loadedRouteData playerLat playerLon)..<
                           nat (findNearestRouteIndex loadedRouteData markerLat markerLon).
                        segmentLength coords k)))"
proof (cases "coords = []")
  case True
  then show ?thesis using assms
    by (simp add: calculateDistanceAlongRoute_def findNearestRouteIndex_def nearestLoop_step)
next
  case False
  let ?p = "nearestLoop coords playerLat playerLon 0 None 0"
  let ?m = "nearestLoop coords markerLat markerLon 0 None 0"
  have m: "?m < length coords" by (rule nearest_scan_result(1)[OF False])
  have idx: "findNearestRouteIndex loadedRouteData playerLat playerLon = int ?p"
    "findNearestRouteIndex loadedRouteData markerLat markerLon = int ?m"
    using assms by (simp_all add: findNearestRouteIndex_def)
  show ?thesis
  proof (cases "?m \<le> ?p")
    case True
    then show ?thesis using assms idx by (simp add: calculateDistanceAlongRoute_def)
  next
    case False
    then have "?p \<le> ?m" by simp
    from sumLoop_sum[OF this m, of 0] False assms idx
    show ?thesis by (simp add: calculateDistanceAlongRoute_def)
  qed
qed

section \<open>The recorder never stores a position twice in a row\<close>

lemma noConsecutiveEqual_snoc:
  "noConsecutiveEqual (xs @ [c]) =
     (noConsecutiveEqual xs \<and>
      (xs = [] \<or> \<not> (latitude (last xs) = latitude c \<and> longitude (last xs) = longitude c)))"
  by (induction xs rule: noConsecutiveEqual.induct) auto

lemma observePlayerInfo_inv:
  assumes "noConsecutiveEqual (routeCoordinates s)" "lastMatches s"
  shows "noConsecutiveEqual (routeCoordinates (observePlayerInfo geo s)) \<and>
         lastMatches (observePlayerInfo geo s)"
  using assms
  by (auto simp: observePlayerInfo_def saveRouteData_def lastMatches_def Let_def
        noConsecutiveEqual_snoc split: option.splits)

lemma observePosition_inv:
  assumes "noConsecutiveEqual (routeCoordinates s)" "lastMatches s"
  shows "noConsecutiveEqual (routeCoordinates (observePosition obs s)) \<and>
         lastMatches (observePosition obs s)"
proof -
  obtain geo h g where obs: "obs = (geo, h, g)" by (cases obs)
  let ?s = "s\<lparr>currentGradient := g, currentHeight := h\<rparr>"
  have "noConsecutiveEqual (routeCoordinates ?s)" "lastMatches ?s"
    using assms by (simp_all add: lastMatches_def split: option.splits)
  from observePlayerInfo_inv[OF this] show ?thesis
    by (simp add: observePosition_def obs)
qed

lemma observeAll_inv:
  assumes "noConsecutiveEqual (routeCoordinates s)" "lastMatches s"
  shows "noConsecutiveEqual (routeCoordinates (observeAll observations s)) \<and>
         lastMatches (observeAll observations s)"
  using assms
proof (induction observations arbitrary: s)
  case Nil
  then show ?case by (simp add: observeAll_def)
next
  case (Cons obs rest)
  from observePosition_inv[OF Cons.prems] Cons.IH[of "observePosition obs s"]
  show ?case by (simp add: observeAll_def)
qed

lemma duplicate_observation:
  assumes "lastRouteCoordinate s = Some l" "latitude l = lat" "longitude l = lon"
  shows "observePlayerInfo (Some \<lparr>geoLongitude = Some lon, geoLatitude = Some lat\<rparr>) s =
         s\<lparr>currentPlayerPosition :=
              Some \<lparr>latitude = lat, longitude = lon, height = currentHeight s,
                    gradient = currentGradient s\<rparr>\<rparr>"
  using assms by (simp add: observePlayerInfo_def Let_def)

lemma new_observation:
  assumes "lastRouteCoordinate s = None \<or>
           (\<exists>l. lastRouteCoordinate s = Some l \<and> (latitude l \<noteq> lat \<or> longitude l \<noteq> lon))"
  shows "routeCoordinates (observePlayerInfo (Some \<lparr>geoLongitude = Some lon, geoLatitude = Some lat\<rparr>) s) =
           routeCoordinates s @ [\<lparr>latitude = lat, longitude = lon, height = currentHeight s,
                                   gradient = currentGradient s\<rparr>]"
    and "lastRouteCoordinate (observePlayerInfo (Some \<lparr>geoLongitude = Some lon, geoLatitude = Some lat\<rparr>) s) =
           Some \<lparr>latitude = lat, longitude = lon, height = currentHeight s,
                 gradient = currentGradient s\<rparr>"
  using assms by (auto simp: observePlayerInfo_def Let_def saveRouteData_def)

lemma nonadjacent_repeat:
  "routeCoordinates
     (observeAll
        [(Some \<lparr>geoLongitude = Some 1, geoLatitude = Some 2\<rparr>, None, None),
         (Some \<lparr>geoLongitude = Some 3, geoLatitude = Some 4\<rparr>, None, None),
         (Some \<lparr>geoLongitude = Some 1, geoLatitude = Some 2\<rparr>, None, None)]
        (initialRecorder path)) =
   [\<lparr>latitude = 2, longitude = 1, height = None, gradient = None\<rparr>,
    \<lparr>latitude = 4, longitude = 3, height = None, gradient = None\<rparr>,
    \<lparr>latitude = 2, longitude = 1, height = None, gradient = None\<rparr>]"
  by (simp add: observeAll_def observePosition_def observePlayerInfo_def initialRecorder_def
        saveRouteData_def Let_def)


text \<open>
  C4 as stated fails in one point: a repeated position does change the state. The recorder
  below last appended the position (2, 1) at a time when no height was known; the height 30
  has been stored since. The same position observed again is not appended, but the current
  player position is assigned again and now carries the height.
\<close>

theorem duplicate_observation_changes_state_counterexample:
  "observePlayerInfo (Some \<lparr>geoLongitude = Some 1, geoLatitude = Some 2\<rparr>)
     \<lparr>routeCoordinates = [\<lparr>latitude = 2, longitude = 1, height = None, gradient = None\<rparr>],
      lastRouteCoordinate = Some \<lparr>latitude = 2, longitude = 1, height = None, gradient = None\<rparr>,
      routeCollectionRequestCount = 1,
      currentPlayerPosition = Some \<lparr>latitude = 2, longitude = 1, height = None, gradient = None\<rparr>,
      currentGradient = None, currentHeight = Some 30,
      routeOutputFilePath = Some ''route_1.json'',
      savedCoordinates = Some [\<lparr>latitude = 2, longitude = 1, height = None, gradient = None\<rparr>]\<rparr> \<noteq>
     \<lparr>routeCoordinates = [\<lparr>latitude = 2, longitude = 1, height = None, gradient = None\<rparr>],
      lastRouteCoordinate = Some \<lparr>latitude = 2, longitude = 1, height = None, gradient = None\<rparr>,
      routeCollectionRequestCount = 1,
      currentPlayerPosition = Some \<lparr>latitude = 2, longitude = 1, height = None, gradient = None\<rparr>,
      currentGradient = None, currentHeight = Some 30,
      routeOutputFilePath = Some ''route_1.json'',
      savedCoordinates = Some [\<lparr>latitude = 2, longitude = 1, height = None, gradient = None\<rparr>]\<rparr>"
  by (simp add: observePlayerInfo_def Let_def)

text \<open>
  C4, amended: whatever observations the recorder is fed from its start, no two consecutive
  entries of its coordinate list have the same latitude and longitude. An observation whose
  latitude and longitude equal those of the last appended coordinate (equality of the
  numbers, no tolerance) appends nothing and leaves the coordinate list, the last appended
  coordinate, the counter and the saved file as they are; the one change of state is that
  the current player position is assigned again, with the same latitude and longitude and
  the height and gradient known at that moment. An observation that differs in latitude or
  longitude, or the first one, is appended and becomes the last coordinate. A position may
  come back later in the list when another one lies between.
\<close>

theorem recorder_no_consecutive_duplicates:
  "noConsecutiveEqual (routeCoordinates (observeAll observations (initialRecorder path))) \<and>
   (lastRouteCoordinate s = Some l \<and> latitude l = lat \<and> longitude l = lon \<longrightarrow>
      observePlayerInfo (Some \<lparr>geoLongitude = Some lon, geoLatitude = Some lat\<rparr>) s =
        s\<lparr>currentPlayerPosition :=
             Some \<lparr>latitude = lat, longitude = lon, height = currentHeight s,
                   gradient = currentGradient s\<rparr>\<rparr>) \<and>
   (lastRouteCoordinate s = None \<or>
    (\<exists>l'. lastRouteCoordinate s = Some l' \<and> (latitude l' \<noteq> lat \<or> longitude l' \<noteq> lon)) \<longrightarrow>
      routeCoordinates (observePlayerInfo (Some \<lparr>geoLongitude = Some lon, geoLatitude = Some lat\<rparr>) s) =
        routeCoordinates s @ [\<lparr>latitude = lat, longitude = lon, height = currentHeight s,
                                gradient = currentGradient s\<rparr>] \<and>
      lastRouteCoordinate (observePlayerInfo (Some \<lparr>geoLongitude = Some lon, geoLatitude = Some lat\<rparr>) s) =
        Some \<lparr>latitude = lat, longitude = lon, height = currentHeight s,
              gradient = currentGradient s\<rparr>) \<and>
   routeCoordinates
     (observeAll
        [(Some \<lparr>geoLongitude = Some 1, geoLatitude = Some 2\<rparr>, None, None),
         (Some \<lparr>geoLongitude = Some 3, geoLatitude = Some 4\<rparr>, None, None),
         (Some \<lparr>geoLongitude = Some 1, geoLatitude = Some 2\<rparr>, None, None)]
        (initialRecorder path)) =
   [\<lparr>latitude = 2, longitude = 1, height = None, gradient = None\<rparr>,
    \<lparr>latitude = 4, longitude = 3, height = None, gradient = None\<rparr>,
    \<lparr>latitude = 2, longitude = 1, height = None, gradient = None\<rparr>]"
proof -
  have "noConsecutiveEqual (routeCoordinates (initialRecorder path))"
    "lastMatches (initialRecorder path)"
    by (simp_all add: initialRecorder_def lastMatches_def)
  from observeAll_inv[OF this]
  have "noConsecutiveEqual (routeCoordinates (observeAll observations (initialRecorder path)))"
    by simp
  then show ?thesis
    using duplicate_observation[of s l lat lon] new_observation[of s lat lon]
      nonadjacent_repeat[of path]
    by blast
qed

theorem recorder_no_consecutive_duplicates_witness:
  "noConsecutiveEqual
     (routeCoordinates
        (observeAll
           [(Some \<lparr>geoLongitude = Some 1, geoLatitude = Some 2\<rparr>, Some 30, None),
            (Some \<lparr>geoLongitude = Some 1, geoLatitude = Some 2\<rparr>, Some 31, Some 1),
            (Some \<lparr>geoLongitude = Some 1, geoLatitude = Some 5\<rparr>, Some 31, Some 1)]
           (initialRecorder (Some ''route_1.json'')))) \<and>
   observePlayerInfo (Some \<lparr>geoLongitude = Some 1, geoLatitude = Some 2\<rparr>)
     \<lparr>routeCoordinates = [\<lparr>latitude = 2, longitude = 1, height = None, gradient = None\<rparr>],
      lastRouteCoordinate = Some \<lparr>latitude = 2, longitude = 1, height = None, gradient = None\<rparr>,
      routeCollectionRequestCount = 1,
      currentPlayerPosition = Some \<lparr>latitude = 2, longitude = 1, height = None, gradient = None\<rparr>,
      currentGradient = None, currentHeight = Some 30,
      routeOutputFilePath = Some ''route_1.json'',
      savedCoordinates = Some [\<lparr>latitude = 2, longitude = 1, height = None, gradient = None\<rparr>]\<rparr> =
     \<lparr>routeCoordinates = [\<lparr>latitude = 2, longitude = 1, height = None, gradient = None\<rparr>],
      lastRouteCoordinate = Some \<lparr>latitude = 2, longitude = 1, height = None, gradient = None\<rparr>,
      routeCollectionRequestCount = 1,
      currentPlayerPosition = Some \<lparr>latitude = 2, longitude = 1, height = Some 30, gradient = None\<rparr>,
      currentGradient = None, currentHeight = Some 30,
      routeOutputFilePath = Some ''route_1.json'',
      savedCoordinates = Some [\<lparr>latitude = 2, longitude = 1, height = None, gradient = None\<rparr>]\<rparr> \<and>
   routeCoordinates
     (observePlayerInfo (Some \<lparr>geoLongitude = Some 1, geoLatitude = Some 5\<rparr>)
        \<lparr>routeCoordinates = [\<lparr>latitude = 2, longitude = 1, height = None, gradient = None\<rparr>],
         lastRouteCoordinate = Some \<lparr>latitude = 2, longitude = 1, height = None, gradient = None\<rparr>,
         routeCollectionRequestCount = 1,
         currentPlayerPosition = Some \<lparr>latitude = 2, longitude = 1, height = None, gradient = None\<rparr>,
         currentGradient = None, currentHeight = Some 30,
         routeOutputFilePath = Some ''route_1.json'',
         savedCoordinates = Some [\<lparr>latitude = 2, longitude = 1, height = None, gradient = None\<rparr>]\<rparr>) =
     [\<lparr>latitude = 2, longitude = 1, height = None, gradient = None\<rparr>,
      \<lparr>latitude = 5, longitude = 1, height = Some 30, gradient = None\<rparr>]"
proof -
  let ?c = "\<lparr>latitude = 2, longitude = 1, height = None, gradient = None\<rparr> :: coordinate"
  let ?s = "\<lparr>routeCoordinates = [?c], lastRouteCoordinate = Some ?c,
      routeCollectionRequestCount = 1, currentPlayerPosition = Some ?c,
      currentGradient = None, currentHeight = Some 30,
      routeOutputFilePath = Some ''route_1.json'', savedCoordinates = Some [?c]\<rparr>"
  let ?obs = "[(Some \<lparr>geoLongitude = Some 1, geoLatitude = Some 2\<rparr>, Some 30, None),
            (Some \<lparr>geoLongitude = Some 1, geoLatitude = Some 2\<rparr>, Some 31, Some 1),
            (Some \<lparr>geoLongitude = Some 1, geoLatitude = Some 5\<rparr>, Some 31, Some 1)]"
  have dup: "lastRouteCoordinate ?s = Some ?c \<and> latitude ?c = 2 \<and> longitude ?c = 1" by simp
  have new: "lastRouteCoordinate ?s = None \<or>
    (\<exists>l'. lastRouteCoordinate ?s = Some l' \<and> (latitude l' \<noteq> 5 \<or> longitude l' \<noteq> 1))" by simp
  from recorder_no_consecutive_duplicates[of ?obs "Some ''route_1.json''" ?s ?c 2 1] dup
  have a: "noConsecutiveEqual (routeCoordinates (observeAll ?obs (initialRecorder (Some ''route_1.json''))))"
    and b: "observePlayerInfo (Some \<lparr>geoLongitude = Some 1, geoLatitude = Some 2\<rparr>) ?s =
        ?s\<lparr>currentPlayerPosition :=
             Some \<lparr>latitude = 2, longitude = 1, height = currentHeight ?s,
                   gradient = currentGradient ?s\<rparr>\<rparr>"
    by blast+
  from recorder_no_consecutive_duplicates[of ?obs "Some ''route_1.json''" ?s ?c 5 1] new
  have c: "routeCoordinates (observePlayerInfo (Some \<lparr>geoLongitude = Some 1, geoLatitude = Some 5\<rparr>) ?s) =
        routeCoordinates ?s @ [\<lparr>latitude = 5, longitude = 1, height = currentHeight ?s,
                                gradient = currentGradient ?s\<rparr>]"
    by blast
  from a b c show ?thesis by simp
qed

section \<open>A new target clears the cached distance\<close>

lemma scanItems_distance:
  "lastDistanceToStation (fst (scanItems target items s)) = lastDistanceToStation s \<or>
   (\<exists>x. lastDistanceToStation (fst (scanItems target items s)) = Some x \<and>
        x \<in> set (itemDistances target (Some items)))"
proof (cases "find (\<lambda>it. itemStationName it = target) items")
  case None
  then show ?thesis by (simp add: scanItems_def)
next
  case (Some it)
  then have it: "it \<in> set items" "itemStationName it = target"
    by (auto simp: find_Some_iff)
  show ?thesis
  proof (cases "distanceToStationCM it")
    case None
    with Some show ?thesis by (simp add: scanItems_def)
  next
    case (Some cm)
    with it have "mathRound (cm / 100) \<in> set (itemDistances target (Some items))"
      by (force simp: itemDistances_def)
    with Some \<open>find _ items = Some it\<close> show ?thesis by (simp add: scanItems_def)
  qed
qed

lemma scanItems_target:
  "lastTargetApiName (fst (scanItems target items s)) = lastTargetApiName s"
  by (simp add: scanItems_def split: option.splits)

lemma extractDistance_alt:
  "extractDistance entries d s =
     (if entries \<noteq> None \<and> truthyStr (targetApiName d) then
        (case find (\<lambda>e. Path e = ''DriverAid.TrackData'' \<and> NodeValid e \<and> Values e \<noteq> None)
                (the entries) of
           None \<Rightarrow> s
         | Some e \<Rightarrow>
             (if \<not> snd (case stations (the (Values e)) of
                        None \<Rightarrow> (s, False)
                      | Some sts \<Rightarrow> scanItems (targetApiName d) sts s)
              then (case trackMarkers (the (Values e)) of
                      None \<Rightarrow> fst (case stations (the (Values e)) of
                        None \<Rightarrow> (s, False)
                      | Some sts \<Rightarrow> scanItems (targetApiName d) sts s)
                    | Some mks \<Rightarrow> fst (scanItems (targetApiName d) mks (fst (case stations (the (Values e)) of
                        None \<Rightarrow> (s, False)
                      | Some sts \<Rightarrow> scanItems (targetApiName d) sts s))))
              else fst (case stations (the (Values e)) of
                        None \<Rightarrow> (s, False)
                      | Some sts \<Rightarrow> scanItems (targetApiName d) sts s)))
      else s)"
  unfolding extractDistance_def Let_def case_prod_beta ..


lemma firstScan_target:
  "lastTargetApiName (fst (case x of None \<Rightarrow> (s, False) | Some sts \<Rightarrow> scanItems t sts s)) =
     lastTargetApiName s"
  by (cases x) (simp_all add: scanItems_target)

lemma firstScan_distance:
  "lastDistanceToStation (fst (case x of None \<Rightarrow> (s, False) | Some sts \<Rightarrow> scanItems t sts s)) =
     lastDistanceToStation s \<or>
   (\<exists>y. lastDistanceToStation (fst (case x of None \<Rightarrow> (s, False) | Some sts \<Rightarrow> scanItems t sts s)) = Some y \<and>
        y \<in> set (itemDistances t x))"
proof (cases x)
  case None
  then show ?thesis by simp
next
  case (Some sts)
  with scanItems_distance[of t sts s] show ?thesis by simp
qed

lemma secondScan_target:
  "lastTargetApiName (case y of None \<Rightarrow> s1 | Some mks \<Rightarrow> fst (scanItems t mks s1)) =
     lastTargetApiName s1"
  by (cases y) (simp_all add: scanItems_target)

lemma secondScan_distance:
  "lastDistanceToStation (case y of None \<Rightarrow> s1 | Some mks \<Rightarrow> fst (scanItems t mks s1)) =
     lastDistanceToStation s1 \<or>
   (\<exists>z. lastDistanceToStation (case y of None \<Rightarrow> s1 | Some mks \<Rightarrow> fst (scanItems t mks s1)) = Some z \<and>
        z \<in> set (itemDistances t y))"
proof (cases y)
  case None
  then show ?thesis by simp
next
  case (Some mks)
  with scanItems_distance[of t mks s1] show ?thesis by simp
qed

lemma extractDistance_target:
  "lastTargetApiName (extractDistance entries d s) = lastTargetApiName s"
proof (cases "entries \<noteq> None \<and> truthyStr (targetApiName d)")
  case False
  show ?thesis by (simp only: extractDistance_alt False if_False simp_thms)
next
  case True
  show ?thesis
  proof (cases "find (\<lambda>e. Path e = ''DriverAid.TrackData'' \<and> NodeValid e \<and> Values e \<noteq> None)
                (the entries)")
    case None
    with True show ?thesis unfolding extractDistance_alt by (simp del: not_None_eq)
  next
    case (Some e)
    with True show ?thesis unfolding extractDistance_alt
      by (simp add: firstScan_target secondScan_target del: not_None_eq)
  qed
qed

lemma extractDistance_distance:
  "lastDistanceToStation (extractDistance entries d s) = lastDistanceToStation s \<or>
   (\<exists>x. lastDistanceToStation (extractDistance entries d s) = Some x \<and>
        x \<in> set (reportedNow entries (targetApiName d)))"
proof (cases "entries \<noteq> None \<and> truthyStr (targetApiName d)")
  case False
  show ?thesis by (simp only: extractDistance_alt False if_False simp_thms)
next
  case True
  then obtain es where es: "entries = Some es" by auto
  let ?t = "targetApiName d"
  show ?thesis
  proof (cases "find (\<lambda>e. Path e = ''DriverAid.TrackData'' \<and> NodeValid e \<and> Values e \<noteq> None) es")
    case None
    with True es show ?thesis unfolding extractDistance_alt by (simp del: not_None_eq)
  next
    case (Some e)
    then have e: "e \<in> set es" and "Values e \<noteq> None" by (auto simp: find_Some_iff)
    then obtain v where v: "Values e = Some v" by auto
    have sub1: "y \<in> set (itemDistances ?t (stations v)) \<Longrightarrow> y \<in> set (reportedNow entries ?t)" for y
      using e v es by (force simp: reportedNow_def)
    have sub2: "y \<in> set (itemDistances ?t (trackMarkers v)) \<Longrightarrow> y \<in> set (reportedNow entries ?t)" for y
      using e v es by (force simp: reportedNow_def)
    define r1 where "r1 = (case stations v of None \<Rightarrow> (s, False) | Some sts \<Rightarrow> scanItems ?t sts s)"
    define r2 where "r2 = (case trackMarkers v of None \<Rightarrow> fst r1
        | Some mks \<Rightarrow> fst (scanItems ?t mks (fst r1)))"
    have r1: "lastDistanceToStation (fst r1) = lastDistanceToStation s \<or>
      (\<exists>x. lastDistanceToStation (fst r1) = Some x \<and> x \<in> set (reportedNow entries ?t))"
      using firstScan_distance[where x="stations v" and s=s and t="?t"] sub1 unfolding r1_def by blast
    have r2: "lastDistanceToStation r2 = lastDistanceToStation (fst r1) \<or>
      (\<exists>x. lastDistanceToStation r2 = Some x \<and> x \<in> set (reportedNow entries ?t))"
      using secondScan_distance[where y="trackMarkers v" and ?s1.0="fst r1" and t="?t"] sub2 unfolding r2_def by blast
    have "extractDistance entries d s = (if \<not> snd r1 then r2 else fst r1)"
      unfolding extractDistance_alt r1_def r2_def using True es Some v
      by (cases "trackMarkers v") (simp_all del: not_None_eq)
    with r1 r2 show ?thesis by (cases "snd r1") auto
  qed
qed

text \<open>
  C9: on a tick whose computed target differs from the target remembered from the previous
  tick, the cached distance is cleared before the telemetry of the tick is searched and the
  new target is remembered. The tick then behaves exactly as if no distance had been cached:
  its state and its output do not depend on the distance cached for the old target, and a
  distance it caches or emits is one that this tick's telemetry reports for the new target.
\<close>

theorem new_target_clears_cached_distance:
  assumes "truthyStr localTime"
    and "targetApiName (getTimetableDisplay timetableData (the localTime)) \<noteq> lastTargetApiName s"
  shows "lastDistanceToStation (resetOnNewTarget (getTimetableDisplay timetableData (the localTime)) s) = None \<and>
    lastTargetApiName (fst (tick timetableData localTime entries s)) =
      targetApiName (getTimetableDisplay timetableData (the localTime)) \<and>
    tick timetableData localTime entries (s\<lparr>lastDistanceToStation := old\<rparr>) =
      tick timetableData localTime entries s \<and>
    (\<forall>x. lastDistanceToStation (fst (tick timetableData localTime entries s)) = Some x \<longrightarrow>
         x \<in> set (reportedNow entries (targetApiName (getTimetableDisplay timetableData (the localTime))))) \<and>
    (\<forall>x. distanceToStation (snd (tick timetableData localTime entries s)) = Some x \<longrightarrow>
         x \<in> set (reportedNow entries (targetApiName (getTimetableDisplay timetableData (the localTime)))))"
proof -
  let ?d = "getTimetableDisplay timetableData (the localTime)"
  let ?s1 = "resetOnNewTarget ?d s"
  let ?s2 = "extractDistance entries ?d ?s1"
  have reset: "lastDistanceToStation ?s1 = None" "lastTargetApiName ?s1 = targetApiName ?d"
    using assms(2) by (simp_all add: resetOnNewTarget_def)
  have same: "resetOnNewTarget ?d (s\<lparr>lastDistanceToStation := old\<rparr>) = ?s1"
    using assms(2) by (simp add: resetOnNewTarget_def)
  have st: "fst (tick timetableData localTime entries s) = ?s2"
    using assms(1) by (simp add: tick_def Let_def)
  have out: "distanceToStation (snd (tick timetableData localTime entries s)) =
      (if showDistance ?d \<and> lastDistanceToStation ?s2 \<noteq> None
       then lastDistanceToStation ?s2 else None)"
    using assms(1) by (simp add: tick_def Let_def)
  have origin: "lastDistanceToStation ?s2 = Some x \<Longrightarrow> x \<in> set (reportedNow entries (targetApiName ?d))" for x
    using extractDistance_distance[of entries ?d ?s1] reset(1) by auto
  have target: "lastTargetApiName ?s2 = targetApiName ?d"
    using extractDistance_target[of entries ?d ?s1] reset(2) by simp
  have indep: "tick timetableData localTime entries (s\<lparr>lastDistanceToStation := old\<rparr>) =
      tick timetableData localTime entries s"
    using assms(1) same by (simp add: tick_def Let_def)
  have emitted: "distanceToStation (snd (tick timetableData localTime entries s)) = Some x \<Longrightarrow>
      x \<in> set (reportedNow entries (targetApiName ?d))" for x
    using origin[of x] unfolding out by (simp split: if_splits)
  show ?thesis
    using reset(1) target indep origin emitted unfolding st by blast
qed

theorem new_target_clears_cached_distance_witness:
  "truthyStr (Some ''2024-06-01T08:30:00.000Z'') \<and>
   targetApiName
     (getTimetableDisplay
        [\<lparr>index = 0, destination = ''Alpha'', arrival = [], departure = ''08:00:00'',
          platform = ''1'', apiName = ''Alpha 1''\<rparr>,
         \<lparr>index = 1, destination = ''Beta'', arrival = ''09:00:00'', departure = [],
          platform = ''2'', apiName = ''Beta 2''\<rparr>]
        ''2024-06-01T08:30:00.000Z'') \<noteq> Some ''Alpha 1'' \<and>
   tick
     [\<lparr>index = 0, destination = ''Alpha'', arrival = [], departure = ''08:00:00'',
       platform = ''1'', apiName = ''Alpha 1''\<rparr>,
      \<lparr>index = 1, destination = ''Beta'', arrival = ''09:00:00'', departure = [],
       platform = ''2'', apiName = ''Beta 2''\<rparr>]
     (Some ''2024-06-01T08:30:00.000Z'') (Some [])
     \<lparr>lastDistanceToStation = Some 500, lastTargetApiName = Some ''Alpha 1''\<rparr> =
   (\<lparr>lastDistanceToStation = None, lastTargetApiName = Some ''Beta 2''\<rparr>,
    \<lparr>timetableTime = Some ''09:00:00'', timetableLabel = Some ''Beta'', distanceToStation = None\<rparr>)"
proof -
  let ?tt = "[\<lparr>index = 0, destination = ''Alpha'', arrival = [], departure = ''08:00:00'',
          platform = ''1'', apiName = ''Alpha 1''\<rparr>,
         \<lparr>index = 1, destination = ''Beta'', arrival = ''09:00:00'', departure = [],
          platform = ''2'', apiName = ''Beta 2''\<rparr>]"
  let ?lt = "Some ''2024-06-01T08:30:00.000Z''"
  let ?s = "\<lparr>lastDistanceToStation = Some 500, lastTargetApiName = Some ''Alpha 1''\<rparr>"
  have d: "getTimetableDisplay ?tt ''2024-06-01T08:30:00.000Z'' =
      \<lparr>time = Some ''09:00:00'', label = Some ''Beta'', targetApiName = Some ''Beta 2'',
       showDistance = True\<rparr>"
    by code_simp
  have h1: "truthyStr ?lt" by (simp add: truthyStr_def)
  have h2: "targetApiName (getTimetableDisplay ?tt (the ?lt)) \<noteq> lastTargetApiName ?s"
    using d by simp
  from new_target_clears_cached_distance[OF h1 h2, of "Some []" "Some 500"]
  have tgt: "lastTargetApiName (fst (tick ?tt ?lt (Some []) ?s)) = Some ''Beta 2''"
    and none: "\<forall>x. lastDistanceToStation (fst (tick ?tt ?lt (Some []) ?s)) = Some x \<longrightarrow>
         x \<in> set (reportedNow (Some []) (targetApiName (getTimetableDisplay ?tt (the ?lt))))"
    and out: "\<forall>x. distanceToStation (snd (tick ?tt ?lt (Some []) ?s)) = Some x \<longrightarrow>
         x \<in> set (reportedNow (Some []) (targetApiName (getTimetableDisplay ?tt (the ?lt))))"
    using d by simp_all
  have a: "lastDistanceToStation (fst (tick ?tt ?lt (Some []) ?s)) = None"
    using none by (cases "lastDistanceToStation (fst (tick ?tt ?lt (Some []) ?s))")
      (simp_all add: reportedNow_def)
  have b: "distanceToStation (snd (tick ?tt ?lt (Some []) ?s)) = None"
    using out by (cases "distanceToStation (snd (tick ?tt ?lt (Some []) ?s))")
      (simp_all add: reportedNow_def)
  have c: "timetableTime (snd (tick ?tt ?lt (Some []) ?s)) = Some ''09:00:00''"
    "timetableLabel (snd (tick ?tt ?lt (Some []) ?s)) = Some ''Beta''"
    using h1 d by (simp_all add: tick_def Let_def)
  have "fst (tick ?tt ?lt (Some []) ?s) = \<lparr>lastDistanceToStation = None, lastTargetApiName = Some ''Beta 2''\<rparr>"
    using a tgt by (cases "fst (tick ?tt ?lt (Some []) ?s)") simp
  moreover have "snd (tick ?tt ?lt (Some []) ?s) =
      \<lparr>timetableTime = Some ''09:00:00'', timetableLabel = Some ''Beta'', distanceToStation = None\<rparr>"
    using b c by (cases "snd (tick ?tt ?lt (Some []) ?s)") simp
  ultimately have "tick ?tt ?lt (Some []) ?s =
      (\<lparr>lastDistanceToStation = None, lastTargetApiName = Some ''Beta 2''\<rparr>,
       \<lparr>timetableTime = Some ''09:00:00'', timetableLabel = Some ''Beta'', distanceToStation = None\<rparr>)"
    by (simp add: prod_eq_iff)
  with h1 d show ?thesis by simp
qed

section \<open>What a processed marker carries\<close>

lemma nearest_single: "findNearestCoordinateIndex [c] lat lon = 0"
  by (simp add: findNearestCoordinateIndex_def nearestLoop_step)

lemma followRoutePath_single: "followRoutePath [c] k d = Inr (lastCoord [c])"
  by (simp add: followRoutePath_def)

lemma cleaned_fields:
  "detectedAt (cleanUp m) = None \<and> distanceAheadMeters (cleanUp m) = None \<and>
   timestamp (cleanUp m) = None \<and> platformLength (cleanUp m) = None \<and>
   calculationMethod (cleanUp m) = None \<and> onspot_latitude (cleanUp m) = None \<and>
   onspot_longitude (cleanUp m) = None \<and> onspot_timestamp (cleanUp m) = None \<and>
   spoton_distance (cleanUp m) = None \<and> stationName (cleanUp m) = stationName m \<and>
   markerType (cleanUp m) = markerType m \<and> isTimetableStation (cleanUp m) = isTimetableStation m \<and>
   markerLatitude (cleanUp m) = markerLatitude m \<and> markerLongitude (cleanUp m) = markerLongitude m"
  by (simp add: cleanUp_def)

lemma resolved_fields:
  "stationName (fst (resolveMarker coords tts m c)) = stationName m \<and>
   markerType (fst (resolveMarker coords tts m c)) = markerType m \<and>
   isTimetableStation (fst (resolveMarker coords tts m c)) =
     Some (case stationName m of None \<Rightarrow> False | Some n \<Rightarrow> n \<in> set tts)"
  by (simp add: resolveMarker_def Let_def split: sum.splits)

lemma processLoop_nth:
  "length (fst (processLoop coords tts ms c)) = length ms \<and>
   (\<forall>i<length ms. \<exists>c0. fst (processLoop coords tts ms c) ! i =
        cleanUp (fst (resolveMarker coords tts (ms ! i) c0)))"
proof (induction ms arbitrary: c)
  case Nil
  then show ?case by simp
next
  case (Cons m ms)
  obtain m' c' where r: "resolveMarker coords tts m c = (m', c')" by (cases "resolveMarker coords tts m c")
  obtain ms' c'' where l: "processLoop coords tts ms c' = (ms', c'')" by (cases "processLoop coords tts ms c'")
  have eq: "fst (processLoop coords tts (m # ms) c) = cleanUp m' # ms'"
    using r l by simp
  from Cons.IH[of c'] l have len: "length ms' = length ms"
    and nth: "\<forall>i<length ms. \<exists>c0. ms' ! i = cleanUp (fst (resolveMarker coords tts (ms ! i) c0))"
    by simp_all
  show ?case
  proof (intro conjI allI impI)
    show "length (fst (processLoop coords tts (m # ms) c)) = length (m # ms)"
      using eq len by simp
  next
    fix i assume i: "i < length (m # ms)"
    show "\<exists>c0. fst (processLoop coords tts (m # ms) c) ! i =
        cleanUp (fst (resolveMarker coords tts ((m # ms) ! i) c0))"
    proof (cases i)
      case 0
      with eq r show ?thesis by (auto intro: exI[of _ c])
    next
      case (Suc k)
      with i nth eq show ?thesis by simp
    qed
  qed
qed

lemma processMarkers_example:
  "processMarkers
     \<lparr>coordinates = Some [\<lparr>latitude = 52, longitude = 1, height = None, gradient = None\<rparr>],
      markers = Some
        [\<lparr>stationName = Some ''Milton Keynes Central'', markerType = Some ''Station'',
          detectedAt = Some \<lparr>latitude = 52, longitude = 1\<rparr>,
          distanceAheadMeters = Some 1250, timestamp = Some ''2026-01-03T12:35:00.000Z'',
          platformLength = Some 220, onspot_latitude = None, onspot_longitude = None,
          onspot_timestamp = None, spoton_distance = None, markerLatitude = None,
          markerLongitude = None, calculationMethod = None, isTimetableStation = None\<rparr>],
      timetable = None\<rparr> [] =
   Inr (\<lparr>coordinates = Some [\<lparr>latitude = 52, longitude = 1, height = None, gradient = None\<rparr>],
         markers = Some
           [\<lparr>stationName = Some ''Milton Keynes Central'', markerType = Some ''Station'',
             detectedAt = None, distanceAheadMeters = None, timestamp = None,
             platformLength = None, onspot_latitude = None, onspot_longitude = None,
             onspot_timestamp = None, spoton_distance = None, markerLatitude = Some 52,
             markerLongitude = Some 1, calculationMethod = None,
             isTimetableStation = Some False\<rparr>],
         timetable = None\<rparr>,
        \<lparr>method1Count = 0, method2Count = 1, errorCount = 0\<rparr>, 1)"
  by (simp add: processMarkers_def resolveMarker_def cleanUp_def truthyNum_def Let_def
        nearest_single followRoutePath_single lastCoord_def)

text \<open>
  C6 as stated fails: a marker that enters with a platform length leaves without it, and
  leaves with a timetable-station flag that the claim does not list.
\<close>

theorem platform_length_removed_counterexample:
  "platformLength
     (hd (the (markers (fst (projr (processMarkers
        \<lparr>coordinates = Some [\<lparr>latitude = 52, longitude = 1, height = None, gradient = None\<rparr>],
         markers = Some
           [\<lparr>stationName = Some ''Milton Keynes Central'', markerType = Some ''Station'',
             detectedAt = Some \<lparr>latitude = 52, longitude = 1\<rparr>,
             distanceAheadMeters = Some 1250, timestamp = Some ''2026-01-03T12:35:00.000Z'',
             platformLength = Some 220, onspot_latitude = None, onspot_longitude = None,
             onspot_timestamp = None, spoton_distance = None, markerLatitude = None,
             markerLongitude = None, calculationMethod = None, isTimetableStation = None\<rparr>],
         timetable = None\<rparr> [])))))) = None \<and>
   isTimetableStation
     (hd (the (markers (fst (projr (processMarkers
        \<lparr>coordinates = Some [\<lparr>latitude = 52, longitude = 1, height = None, gradient = None\<rparr>],
         markers = Some
           [\<lparr>stationName = Some ''Milton Keynes Central'', markerType = Some ''Station'',
             detectedAt = Some \<lparr>latitude = 52, longitude = 1\<rparr>,
             distanceAheadMeters = Some 1250, timestamp = Some ''2026-01-03T12:35:00.000Z'',
             platformLength = Some 220, onspot_latitude = None, onspot_longitude = None,
             onspot_timestamp = None, spoton_distance = None, markerLatitude = None,
             markerLongitude = None, calculationMethod = None, isTimetableStation = None\<rparr>],
         timetable = None\<rparr> [])))))) = Some False"
  by (simp add: processMarkers_example)

text \<open>
  C6, amended: every marker of the final output keeps its name and kind, carries the
  timetable-station flag computed from its name, and has lost all detection-time fields
  (detection position, distance ahead, time stamps, on-spot fields, method tag) and also the
  platform length.
\<close>

theorem processed_marker_fields:
  assumes "processMarkers data timetableStations = Inr (data', c, n)"
    and "markers data = Some ms"
  shows "\<exists>ms'. markers data' = Some ms' \<and> length ms' = length ms \<and>
     (\<forall>i<length ms.
        stationName (ms' ! i) = stationName (ms ! i) \<and>
        markerType (ms' ! i) = markerType (ms ! i) \<and>
        isTimetableStation (ms' ! i) =
          Some (case stationName (ms ! i) of None \<Rightarrow> False
                | Some nm \<Rightarrow> nm \<in> set timetableStations) \<and>
        detectedAt (ms' ! i) = None \<and> distanceAheadMeters (ms' ! i) = None \<and>
        timestamp (ms' ! i) = None \<and> platformLength (ms' ! i) = None \<and>
        calculationMethod (ms' ! i) = None \<and> onspot_latitude (ms' ! i) = None \<and>
        onspot_longitude (ms' ! i) = None \<and> onspot_timestamp (ms' ! i) = None \<and>
        spoton_distance (ms' ! i) = None)"
proof -
  from assms obtain coords where coords: "coordinates data = Some coords" "coords \<noteq> []"
    by (auto simp: processMarkers_def split: option.splits if_splits)
  let ?c0 = "\<lparr>method1Count = 0, method2Count = 0, errorCount = 0\<rparr>"
  let ?ms' = "fst (processLoop coords timetableStations ms ?c0)"
  have data': "markers data' = Some ?ms'"
    using assms coords by (auto simp: processMarkers_def Let_def split: prod.splits)
  from processLoop_nth[of coords timetableStations ms ?c0]
  have len: "length ?ms' = length ms"
    and nth: "\<forall>i<length ms. \<exists>c0. ?ms' ! i = cleanUp (fst (resolveMarker coords timetableStations (ms ! i) c0))"
    by simp_all
  have "\<forall>i<length ms.
        stationName (?ms' ! i) = stationName (ms ! i) \<and>
        markerType (?ms' ! i) = markerType (ms ! i) \<and>
        isTimetableStation (?ms' ! i) =
          Some (case stationName (ms ! i) of None \<Rightarrow> False
                | Some nm \<Rightarrow> nm \<in> set timetableStations) \<and>
        detectedAt (?ms' ! i) = None \<and> distanceAheadMeters (?ms' ! i) = None \<and>
        timestamp (?ms' ! i) = None \<and> platformLength (?ms' ! i) = None \<and>
        calculationMethod (?ms' ! i) = None \<and> onspot_latitude (?ms' ! i) = None \<and>
        onspot_longitude (?ms' ! i) = None \<and> onspot_timestamp (?ms' ! i) = None \<and>
        spoton_distance (?ms' ! i) = None"
  proof (intro allI impI)
    fix i assume "i < length ms"
    with nth obtain c0 where
      eq: "?ms' ! i = cleanUp (fst (resolveMarker coords timetableStations (ms ! i) c0))"
      by blast
    show "stationName (?ms' ! i) = stationName (ms ! i) \<and>
        markerType (?ms' ! i) = markerType (ms ! i) \<and>
        isTimetableStation (?ms' ! i) =
          Some (case stationName (ms ! i) of None \<Rightarrow> False
                | Some nm \<Rightarrow> nm \<in> set timetableStations) \<and>
        detectedAt (?ms' ! i) = None \<and> distanceAheadMeters (?ms' ! i) = None \<and>
        timestamp (?ms' ! i) = None \<and> platformLength (?ms' ! i) = None \<and>
        calculationMethod (?ms' ! i) = None \<and> onspot_latitude (?ms' ! i) = None \<and>
        onspot_longitude (?ms' ! i) = None \<and> onspot_timestamp (?ms' ! i) = None \<and>
        spoton_distance (?ms' ! i) = None"
      unfolding eq
      using cleaned_fields[of "fst (resolveMarker coords timetableStations (ms ! i) c0)"]
        resolved_fields[of coords timetableStations "ms ! i" c0]
      by simp
  qed
  with data' len show ?thesis by blast
qed

theorem processed_marker_fields_witness:
  "markers
     \<lparr>coordinates = Some [\<lparr>latitude = 52, longitude = 1, height = None, gradient = None\<rparr>],
      markers = Some
        [\<lparr>stationName = Some ''Milton Keynes Central'', markerType = Some ''Station'',
          detectedAt = Some \<lparr>latitude = 52, longitude = 1\<rparr>,
          distanceAheadMeters = Some 1250, timestamp = Some ''2026-01-03T12:35:00.000Z'',
          platformLength = Some 220, onspot_latitude = None, onspot_longitude = None,
          onspot_timestamp = None, spoton_distance = None, markerLatitude = None,
          markerLongitude = None, calculationMethod = None, isTimetableStation = None\<rparr>],
      timetable = None\<rparr> \<noteq> None \<and>
   (\<exists>ms'. markers
       \<lparr>coordinates = Some [\<lparr>latitude = 52, longitude = 1, height = None, gradient = None\<rparr>],
        markers = Some
           [\<lparr>stationName = Some ''Milton Keynes Central'', markerType = Some ''Station'',
             detectedAt = None, distanceAheadMeters = None, timestamp = None,
             platformLength = None, onspot_latitude = None, onspot_longitude = None,
             onspot_timestamp = None, spoton_distance = None, markerLatitude = Some 52,
             markerLongitude = Some 1, calculationMethod = None,
             isTimetableStation = Some False\<rparr>],
        timetable = None\<rparr> = Some ms' \<and>
      length ms' = 1 \<and> stationName (ms' ! 0) = Some ''Milton Keynes Central'' \<and>
      markerType (ms' ! 0) = Some ''Station'' \<and> isTimetableStation (ms' ! 0) = Some False \<and>
      detectedAt (ms' ! 0) = None \<and> distanceAheadMeters (ms' ! 0) = None \<and>
      timestamp (ms' ! 0) = None \<and> platformLength (ms' ! 0) = None)"
  using processed_marker_fields[OF processMarkers_example, of
      "[\<lparr>stationName = Some ''Milton Keynes Central'', markerType = Some ''Station'',
          detectedAt = Some \<lparr>latitude = 52, longitude = 1\<rparr>,
          distanceAheadMeters = Some 1250, timestamp = Some ''2026-01-03T12:35:00.000Z'',
          platformLength = Some 220, onspot_latitude = None, onspot_longitude = None,
          onspot_timestamp = None, spoton_distance = None, markerLatitude = None,
          markerLongitude = None, calculationMethod = None, isTimetableStation = None\<rparr>]"]
  by simp

section \<open>Which method resolves a marker\<close>

lemma onspot_method_preferred:
  assumes "onspot_latitude m = Some lat" "lat \<noteq> 0" "onspot_longitude m = Some lon" "lon \<noteq> 0"
    and "spoton_distance m = Some ahead" "coords \<noteq> []"
  shows "\<exists>p. followRoutePath coords (findNearestCoordinateIndex coords lat lon) ahead = Inr p \<and>
     resolveMarker coords tts m c =
       (m\<lparr>isTimetableStation :=
            Some (case stationName m of None \<Rightarrow> False | Some n \<Rightarrow> n \<in> set tts),
          markerLatitude := Some (latitude p), markerLongitude := Some (longitude p),
          calculationMethod := Some ''onspot''\<rparr>,
        c\<lparr>method1Count := method1Count c + 1\<rparr>)"
  using assms by (simp add: resolveMarker_def truthyNum_def Let_def followRoutePath_def)

lemma zero_onspot_latitude_uses_detection:
  assumes "onspot_latitude m = Some 0"
    and "detectedAt m = Some d" "latitude d \<noteq> 0" "longitude d \<noteq> 0"
    and "distanceAheadMeters m = Some ahead" "coords \<noteq> []"
  shows "\<exists>p. followRoutePath coords (findNearestCoordinateIndex coords (latitude d) (longitude d)) ahead = Inr p \<and>
     resolveMarker coords tts m c =
       (m\<lparr>isTimetableStation :=
            Some (case stationName m of None \<Rightarrow> False | Some n \<Rightarrow> n \<in> set tts),
          markerLatitude := Some (latitude p), markerLongitude := Some (longitude p),
          calculationMethod := Some ''detectedAt''\<rparr>,
        c\<lparr>method2Count := method2Count c + 1\<rparr>)"
  using assms by (simp add: resolveMarker_def truthyNum_def Let_def followRoutePath_def)

section \<open>The walk at distance zero\<close>

text \<open>
  C1: asked for the point 0 meters ahead of the first of the three points (0, 0), (0, 0.001),
  (0, 0.002), the walk does not enter its loop and returns the last point of the route, not
  the point it started from.
\<close>

theorem zero_distance_returns_route_end:
  "followRoutePath
     [\<lparr>latitude = 0, longitude = 0, height = None, gradient = None\<rparr>,
      \<lparr>latitude = 0, longitude = 1 / 1000, height = None, gradient = None\<rparr>,
      \<lparr>latitude = 0, longitude = 2 / 1000, height = None, gradient = None\<rparr>] 0 0 =
   Inr \<lparr>latitude = 0, longitude = 2 / 1000\<rparr>"
  by (simp add: followRoutePath_def followLoop.simps lastCoord_def)

section \<open>When no distance is available\<close>

lemma nearestRoute_single:
  "findNearestRouteIndex (Some \<lparr>coordinates = Some [c], markers = ms, timetable = tt\<rparr>) lat lon = 0"
  by (simp add: findNearestRouteIndex_def nearestLoop_step)

text \<open>
  C5 as stated fails: the target marker below has no resolved position, only the position
  where it was detected, and the tick reports a number (0), not \<^verbatim>\<open>null\<close>.
\<close>

theorem unresolved_marker_projected_counterexample:
  "markerLatitude
     \<lparr>stationName = Some ''Beta 2'', markerType = Some ''Station'',
      detectedAt = Some \<lparr>latitude = 52, longitude = 1\<rparr>,
      distanceAheadMeters = Some 1250, timestamp = None, platformLength = None,
      onspot_latitude = None, onspot_longitude = None, onspot_timestamp = None,
      spoton_distance = None, markerLatitude = None, markerLongitude = None,
      calculationMethod = None, isTimetableStation = None\<rparr> = None \<and>
   tickDistanceToStation
     (Some \<lparr>coordinates = Some [\<lparr>latitude = 52, longitude = 1, height = None, gradient = None\<rparr>],
            markers = Some
              [\<lparr>stationName = Some ''Beta 2'', markerType = Some ''Station'',
                detectedAt = Some \<lparr>latitude = 52, longitude = 1\<rparr>,
                distanceAheadMeters = Some 1250, timestamp = None, platformLength = None,
                onspot_latitude = None, onspot_longitude = None, onspot_timestamp = None,
                spoton_distance = None, markerLatitude = None, markerLongitude = None,
                calculationMethod = None, isTimetableStation = None\<rparr>],
            timetable = None\<rparr>)
     (Some ''Beta 2'') (Some \<lparr>latitude = 52, longitude = 1\<rparr>) = Inr (Some 0)"
  by (simp add: tickDistanceToStation_def getNextTimetableMarker_def truthyStr_def truthyNum_def
        orElse_def calculateDistanceAlongRoute_def nearestRoute_single mathRound_def)

lemma no_coordinates_null:
  assumes "loadedRouteData = None \<or> (\<exists>d. loadedRouteData = Some d \<and> coordinates d = None)"
  shows "calculateDistanceAlongRoute loadedRouteData playerLat playerLon markerLat markerLon = Inr None"
  using assms by (auto simp: calculateDistanceAlongRoute_def)

lemma no_coordinates_tick:
  assumes "loadedRouteData = None \<or> (\<exists>d. loadedRouteData = Some d \<and> coordinates d = None)"
  shows "tickDistanceToStation loadedRouteData target pos = Inr None"
proof -
  have "calculateDistanceAlongRoute loadedRouteData a b c e = Inr None" for a b c e
    using assms by (rule no_coordinates_null)
  then show ?thesis
    by (simp add: tickDistanceToStation_def split: option.splits)
qed

lemma no_marker_tick:
  assumes "loadedRouteData = Some d" "markers d = Some ms"
    and "find (\<lambda>m. stationName m = target) ms = None"
  shows "getNextTimetableMarker loadedRouteData target = None"
    and "tickDistanceToStation loadedRouteData target pos = Inr None"
  using assms by (simp_all add: getNextTimetableMarker_def tickDistanceToStation_def)

lemma no_position_tick:
  assumes "loadedRouteData = Some d" "markers d = Some ms"
    and "find (\<lambda>m. stationName m = target) ms = Some m"
    and "markerLatitude m = None \<or> markerLongitude m = None" "detectedAt m = None"
  shows "tickDistanceToStation loadedRouteData target pos = Inr None"
  using assms
  by (auto simp: getNextTimetableMarker_def tickDistanceToStation_def orElse_def truthyNum_def)

lemma detection_position_used:
  assumes "truthyStr target" "loadedRouteData = Some d" "markers d = Some ms"
    and "find (\<lambda>m. stationName m = target) ms = Some m"
    and "markerLatitude m = None" "markerLongitude m = None" "detectedAt m = Some p"
  shows "getNextTimetableMarker loadedRouteData target =
           Some \<lparr>nmName = stationName m, nmLatitude = Some (latitude p),
                 nmLongitude = Some (longitude p), nmType = markerType m\<rparr>"
  using assms by (simp add: getNextTimetableMarker_def orElse_def truthyNum_def)

text \<open>
  C5, amended: when no route is loaded or the loaded route has no coordinate list, the
  distance along the route is \<^verbatim>\<open>null\<close> (no exception, no number) and the tick's
  distance stays \<^verbatim>\<open>null\<close>. The tick's distance also stays \<^verbatim>\<open>null\<close> when no
  marker carries the target name, and when the marker of that name has neither a resolved
  position nor a detection position. For a marker without a resolved position that still
  has its detection position, the projector takes the detection position.
\<close>

theorem projection_unavailable:
  "(loadedRouteData = None \<or> (\<exists>d. loadedRouteData = Some d \<and> coordinates d = None) \<longrightarrow>
      calculateDistanceAlongRoute loadedRouteData playerLat playerLon markerLat markerLon = Inr None \<and>
      tickDistanceToStation loadedRouteData target pos = Inr None) \<and>
   (loadedRouteData = Some d \<and> markers d = Some ms \<and>
    find (\<lambda>m. stationName m = target) ms = None \<longrightarrow>
      getNextTimetableMarker loadedRouteData target = None \<and>
      tickDistanceToStation loadedRouteData target pos = Inr None) \<and>
   (loadedRouteData = Some d \<and> markers d = Some ms \<and>
    find (\<lambda>m. stationName m = target) ms = Some m \<and>
    (markerLatitude m = None \<or> markerLongitude m = None) \<and> detectedAt m = None \<longrightarrow>
      tickDistanceToStation loadedRouteData target pos = Inr None) \<and>
   (truthyStr target \<and> loadedRouteData = Some d \<and> markers d = Some ms \<and>
    find (\<lambda>m. stationName m = target) ms = Some m \<and>
    markerLatitude m = None \<and> markerLongitude m = None \<and> detectedAt m = Some p \<longrightarrow>
      getNextTimetableMarker loadedRouteData target =
        Some \<lparr>nmName = stationName m, nmLatitude = Some (latitude p),
              nmLongitude = Some (longitude p), nmType = markerType m\<rparr>)"
proof (intro conjI impI)
  assume a: "loadedRouteData = None \<or> (\<exists>d. loadedRouteData = Some d \<and> coordinates d = None)"
  show "calculateDistanceAlongRoute loadedRouteData playerLat playerLon markerLat markerLon = Inr None"
    using a by (rule no_coordinates_null)
  show "tickDistanceToStation loadedRouteData target pos = Inr None"
    using a by (rule no_coordinates_tick)
next
  assume a: "loadedRouteData = Some d \<and> markers d = Some ms \<and>
    find (\<lambda>m. stationName m = target) ms = None"
  show "getNextTimetableMarker loadedRouteData target = None"
    using a no_marker_tick(1)[of loadedRouteData d ms target] by simp
  show "tickDistanceToStation loadedRouteData target pos = Inr None"
    using a no_marker_tick(2)[of loadedRouteData d ms target pos] by simp
next
  assume a: "loadedRouteData = Some d \<and> markers d = Some ms \<and>
    find (\<lambda>m. stationName m = target) ms = Some m \<and>
    (markerLatitude m = None \<or> markerLongitude m = None) \<and> detectedAt m = None"
  show "tickDistanceToStation loadedRouteData target pos = Inr None"
    using a no_position_tick[of loadedRouteData d ms target m pos] by simp
next
  assume a: "truthyStr target \<and> loadedRouteData = Some d \<and> markers d = Some ms \<and>
    find (\<lambda>m. stationName m = target) ms = Some m \<and>
    markerLatitude m = None \<and> markerLongitude m = None \<and> detectedAt m = Some p"
  show "getNextTimetableMarker loadedRouteData target =
        Some \<lparr>nmName = stationName m, nmLatitude = Some (latitude p),
              nmLongitude = Some (longitude p), nmType = markerType m\<rparr>"
    using a detection_position_used[of target loadedRouteData d ms m p] by simp
qed

theorem projection_unavailable_witness:
  "calculateDistanceAlongRoute
     (Some \<lparr>coordinates = None, markers = Some [], timetable = None\<rparr>) 52 1 52 1 = Inr None \<and>
   tickDistanceToStation
     (Some \<lparr>coordinates = None, markers = Some [], timetable = None\<rparr>)
     (Some ''Beta 2'') (Some \<lparr>latitude = 52, longitude = 1\<rparr>) = Inr None \<and>
   getNextTimetableMarker
     (Some \<lparr>coordinates = None, markers = Some [], timetable = None\<rparr>) (Some ''Beta 2'') = None \<and>
   tickDistanceToStation
     (Some \<lparr>coordinates = Some [\<lparr>latitude = 52, longitude = 1, height = None, gradient = None\<rparr>],
            markers = Some
              [\<lparr>stationName = Some ''Beta 2'', markerType = Some ''Station'',
                detectedAt = None, distanceAheadMeters = None, timestamp = None,
                platformLength = None, onspot_latitude = None, onspot_longitude = None,
                onspot_timestamp = None, spoton_distance = None, markerLatitude = None,
                markerLongitude = None, calculationMethod = None,
                isTimetableStation = Some True\<rparr>],
            timetable = None\<rparr>)
     (Some ''Beta 2'') (Some \<lparr>latitude = 52, longitude = 1\<rparr>) = Inr None \<and>
   getNextTimetableMarker
     (Some \<lparr>coordinates = Some [\<lparr>latitude = 52, longitude = 1, height = None, gradient = None\<rparr>],
            markers = Some
              [\<lparr>stationName = Some ''Beta 2'', markerType = Some ''Station'',
                detectedAt = Some \<lparr>latitude = 52, longitude = 1\<rparr>,
                distanceAheadMeters = Some 1250, timestamp = None,
                platformLength = None, onspot_latitude = None, onspot_longitude = None,
                onspot_timestamp = None, spoton_distance = None, markerLatitude = None,
                markerLongitude = None, calculationMethod = None,
                isTimetableStation = None\<rparr>],
            timetable = None\<rparr>)
     (Some ''Beta 2'') =
   Some \<lparr>nmName = Some ''Beta 2'', nmLatitude = Some 52, nmLongitude = Some 1,
         nmType = Some ''Station''\<rparr>"
proof -
  let ?r0 = "\<lparr>coordinates = None, markers = Some ([] :: marker list), timetable = None\<rparr>"
  let ?m = "\<lparr>stationName = Some ''Beta 2'', markerType = Some ''Station'',
                detectedAt = None, distanceAheadMeters = None, timestamp = None,
                platformLength = None, onspot_latitude = None, onspot_longitude = None,
                onspot_timestamp = None, spoton_distance = None, markerLatitude = None,
                markerLongitude = None, calculationMethod = None,
                isTimetableStation = Some True\<rparr>"
  let ?u = "\<lparr>stationName = Some ''Beta 2'', markerType = Some ''Station'',
                detectedAt = Some \<lparr>latitude = 52, longitude = 1\<rparr>,
                distanceAheadMeters = Some 1250, timestamp = None,
                platformLength = None, onspot_latitude = None, onspot_longitude = None,
                onspot_timestamp = None, spoton_distance = None, markerLatitude = None,
                markerLongitude = None, calculationMethod = None,
                isTimetableStation = None\<rparr>"
  let ?c = "\<lparr>latitude = 52, longitude = 1, height = None, gradient = None\<rparr> :: coordinate"
  let ?r1 = "\<lparr>coordinates = Some [?c], markers = Some [?m], timetable = None\<rparr>"
  let ?r2 = "\<lparr>coordinates = Some [?c], markers = Some [?u], timetable = None\<rparr>"
  let ?t = "Some ''Beta 2''"
  let ?pos = "Some \<lparr>latitude = 52, longitude = 1\<rparr>"
  let ?p = "\<lparr>latitude = 52, longitude = 1\<rparr> :: latlng"
  have a: "Some ?r0 = None \<or> (\<exists>d. Some ?r0 = Some d \<and> coordinates d = None)" by simp
  have b: "Some ?r0 = Some ?r0 \<and> markers ?r0 = Some [] \<and>
    find (\<lambda>m. stationName m = ?t) [] = None" by simp
  have c: "Some ?r1 = Some ?r1 \<and> markers ?r1 = Some [?m] \<and>
    find (\<lambda>m. stationName m = ?t) [?m] = Some ?m \<and>
    (markerLatitude ?m = None \<or> markerLongitude ?m = None) \<and> detectedAt ?m = None" by simp
  have d: "truthyStr ?t \<and> Some ?r2 = Some ?r2 \<and> markers ?r2 = Some [?u] \<and>
    find (\<lambda>m. stationName m = ?t) [?u] = Some ?u \<and>
    markerLatitude ?u = None \<and> markerLongitude ?u = None \<and> detectedAt ?u = Some ?p"
    by (simp add: truthyStr_def)
  from projection_unavailable[of "Some ?r0" 52 1 52 1 ?t ?pos ?r0 "[]" ?m ?p] a b
  have 1: "calculateDistanceAlongRoute (Some ?r0) 52 1 52 1 = Inr None"
    and 2: "tickDistanceToStation (Some ?r0) ?t ?pos = Inr None"
    and 3: "getNextTimetableMarker (Some ?r0) ?t = None"
    by simp_all
  from projection_unavailable[of "Some ?r1" 52 1 52 1 ?t ?pos ?r1 "[?m]" ?m ?p] c
  have 4: "tickDistanceToStation (Some ?r1) ?t ?pos = Inr None"
    by simp
  from projection_unavailable[of "Some ?r2" 52 1 52 1 ?t ?pos ?r2 "[?u]" ?u ?p] d
  have 5: "getNextTimetableMarker (Some ?r2) ?t =
      Some \<lparr>nmName = stationName ?u, nmLatitude = Some (latitude ?p),
            nmLongitude = Some (longitude ?p), nmType = markerType ?u\<rparr>"
    by simp
  from 1 2 3 4 5 show ?thesis by simp
qed

section \<open>The timetable display\<close>

lemma timetableLoop_last:
  assumes "i < length tt" "i = length tt - 1"
    and "\<not> (i = 0 \<and> jsLess cur (timeToSeconds (departure (tt ! i))))"
  shows "timetableLoop tt cur i = arrivalDisplay (tt ! i)"
  using assms by (subst timetableLoop.simps) (auto simp: Let_def)

lemma timetableLoop_pass:
  assumes "Suc k < length tt"
    and "\<not> jsLess cur (timeToSeconds (departure (tt ! k)))"
    and "\<not> jsLess cur (timeToSeconds (arrival (tt ! Suc k)))"
    and "\<not> jsLess cur (timeToSeconds (departure (tt ! Suc k)))"
  shows "timetableLoop tt cur k = timetableLoop tt cur (Suc k)"
  using assms by (subst timetableLoop.simps) (simp add: Let_def)

lemma timetableLoop_skip:
  assumes "i < length tt"
    and "\<forall>k<i. \<not> jsLess cur (timeToSeconds (departure (tt ! k))) \<and>
               \<not> jsLess cur (timeToSeconds (arrival (tt ! Suc k))) \<and>
               \<not> jsLess cur (timeToSeconds (departure (tt ! Suc k)))"
  shows "timetableLoop tt cur 0 = timetableLoop tt cur i"
  using assms
proof (induction i)
  case 0
  then show ?case by simp
next
  case (Suc i)
  then have "timetableLoop tt cur 0 = timetableLoop tt cur i" by simp
  also have "\<dots> = timetableLoop tt cur (Suc i)"
    using Suc.prems by (intro timetableLoop_pass) simp_all
  finally show ?case .
qed

lemma timetableLoop_between:
  assumes "Suc i < length tt"
    and "\<not> jsLess cur (timeToSeconds (departure (tt ! i)))"
    and "jsGreaterEq cur (timeToSeconds (departure (tt ! i)))"
    and "jsLess cur (timeToSeconds (arrival (tt ! Suc i)))"
  shows "timetableLoop tt cur i = arrivalDisplay (tt ! Suc i)"
  using assms by (subst timetableLoop.simps) (simp add: Let_def)

lemma timetableLoop_first:
  assumes "tt \<noteq> []" "jsLess cur (timeToSeconds (departure (tt ! 0)))"
  shows "timetableLoop tt cur 0 = departureDisplay (tt ! 0)"
  using assms by (subst timetableLoop.simps) (simp add: Let_def)

lemma timetableLoop_returns:
  assumes "i < length tt"
  shows "\<exists>s\<in>set tt. timetableLoop tt cur i = departureDisplay s \<or>
                     timetableLoop tt cur i = arrivalDisplay s"
  using assms
proof (induction "length tt - i" arbitrary: i)
  case 0
  then show ?case by simp
next
  case (Suc n)
  have here: "tt ! i \<in> set tt" using Suc.prems by simp
  show ?case
  proof (cases "Suc i < length tt")
    case False
    with Suc.prems have last: "i = length tt - 1" by simp
    have "timetableLoop tt cur i = departureDisplay (tt ! i) \<or>
          timetableLoop tt cur i = arrivalDisplay (tt ! i)"
      using Suc.prems last by (subst (1 2) timetableLoop.simps) (simp add: Let_def)
    with here show ?thesis by blast
  next
    case True
    then have nxt: "tt ! Suc i \<in> set tt" by simp
    have "n = length tt - Suc i" using Suc.hyps(2) by simp
    from Suc.hyps(1)[OF this True]
    obtain s where s: "s \<in> set tt"
      "timetableLoop tt cur (Suc i) = departureDisplay s \<or>
       timetableLoop tt cur (Suc i) = arrivalDisplay s"
      by auto
    have "timetableLoop tt cur i \<in>
        {departureDisplay (tt ! i), arrivalDisplay (tt ! i), departureDisplay (tt ! Suc i),
         arrivalDisplay (tt ! Suc i), timetableLoop tt cur (Suc i)}"
      using True by (subst timetableLoop.simps) (simp add: Let_def)
    with here nxt s show ?thesis by auto
  qed
qed

lemma chronoFrom_before:
  assumes "chronoFrom lo (xs @ Some (Num d) # ys)"
  shows "lo \<le> d \<and> (\<forall>t\<in>set xs. t = None \<or> (\<exists>x. t = Some (Num x) \<and> x \<le> d))"
  using assms
proof (induction xs arbitrary: lo)
  case Nil
  then show ?case by simp
next
  case (Cons t xs)
  show ?case
  proof (cases t)
    case None
    with Cons show ?thesis by simp
  next
    case (Some v)
    show ?thesis
    proof (cases v)
      case NaN
      with Some Cons.prems show ?thesis by simp
    next
      case (Num x)
      with Some Cons.prems have "lo \<le> x" "chronoFrom x (xs @ Some (Num d) # ys)" by simp_all
      with Cons.IH[of x] Some Num show ?thesis by auto
    qed
  qed
qed

lemma not_before:
  assumes "t = None \<or> (\<exists>x. t = Some (Num x) \<and> x \<le> d)" "d \<le> c" "0 \<le> c"
  shows "\<not> jsLess (Some (Num c)) t"
  using assms by (auto simp: jsLess_def)

lemma schedule_append: "schedule (xs @ ys) = schedule xs @ schedule ys"
  by (simp add: schedule_def)

lemma schedule_split:
  assumes "i < length tt"
  shows "schedule tt = (schedule (take i tt) @ [timeToSeconds (arrival (tt ! i))]) @
           timeToSeconds (departure (tt ! i)) # schedule (drop (Suc i) tt)"
proof -
  have "tt = take i tt @ [tt ! i] @ drop (Suc i) tt"
    using assms by (simp add: id_take_nth_drop)
  then have "schedule tt = schedule (take i tt) @ schedule [tt ! i] @ schedule (drop (Suc i) tt)"
    by (metis schedule_append)
  then show ?thesis by (simp add: schedule_def)
qed

lemma schedule_member:
  assumes "j < i" "i \<le> length tt"
  shows "timeToSeconds (arrival (tt ! j)) \<in> set (schedule (take i tt))"
    and "timeToSeconds (departure (tt ! j)) \<in> set (schedule (take i tt))"
proof -
  have "tt ! j \<in> set (take i tt)"
    using assms by (metis in_set_conv_nth length_take min.absorb2 nth_take)
  then show "timeToSeconds (arrival (tt ! j)) \<in> set (schedule (take i tt))"
    and "timeToSeconds (departure (tt ! j)) \<in> set (schedule (take i tt))"
    by (auto simp: schedule_def)
qed

lemma chronological_passed:
  assumes "chronological tt" "i < length tt"
    and "timeToSeconds (departure (tt ! i)) = Some (Num d)" "d \<le> c"
  shows "\<not> jsLess (Some (Num c)) (timeToSeconds (departure (tt ! i)))"
    and "\<not> jsLess (Some (Num c)) (timeToSeconds (arrival (tt ! i)))"
    and "\<forall>j<i. \<not> jsLess (Some (Num c)) (timeToSeconds (departure (tt ! j))) \<and>
               \<not> jsLess (Some (Num c)) (timeToSeconds (arrival (tt ! j)))"
proof -
  let ?pre = "schedule (take i tt) @ [timeToSeconds (arrival (tt ! i))]"
  have "chronoFrom 0 (?pre @ Some (Num d) # schedule (drop (Suc i) tt))"
    using assms(1,3) schedule_split[OF assms(2)] by (simp add: chronological_def)
  from chronoFrom_before[OF this]
  have d0: "0 \<le> d" and pre: "\<forall>t\<in>set ?pre. t = None \<or> (\<exists>x. t = Some (Num x) \<and> x \<le> d)"
    by simp_all
  have c0: "0 \<le> c" using d0 assms(4) by simp
  show "\<not> jsLess (Some (Num c)) (timeToSeconds (departure (tt ! i)))"
    using assms(3,4) by (simp add: jsLess_def)
  show "\<not> jsLess (Some (Num c)) (timeToSeconds (arrival (tt ! i)))"
    using pre assms(4) c0 by (intro not_before[where d=d]) simp_all
  show "\<forall>j<i. \<not> jsLess (Some (Num c)) (timeToSeconds (departure (tt ! j))) \<and>
               \<not> jsLess (Some (Num c)) (timeToSeconds (arrival (tt ! j)))"
  proof (intro allI impI conjI)
    fix j assume j: "j < i"
    from schedule_member[OF j] assms(2)
    have "timeToSeconds (arrival (tt ! j)) \<in> set ?pre" "timeToSeconds (departure (tt ! j)) \<in> set ?pre"
      by simp_all
    with pre have a: "timeToSeconds (arrival (tt ! j)) = None \<or>
        (\<exists>x. timeToSeconds (arrival (tt ! j)) = Some (Num x) \<and> x \<le> d)"
      and b: "timeToSeconds (departure (tt ! j)) = None \<or>
        (\<exists>x. timeToSeconds (departure (tt ! j)) = Some (Num x) \<and> x \<le> d)"
      by blast+
    show "\<not> jsLess (Some (Num c)) (timeToSeconds (departure (tt ! j)))"
      using b assms(4) c0 by (rule not_before)
    show "\<not> jsLess (Some (Num c)) (timeToSeconds (arrival (tt ! j)))"
      using a assms(4) c0 by (rule not_before)
  qed
qed

lemma display_before_first_departure:
  assumes "timetableData \<noteq> []" "timePart currentTimeISO = Inr tp"
    and "jsLess (timeToSeconds tp) (timeToSeconds (departure (timetableData ! 0)))"
  shows "getTimetableDisplay timetableData currentTimeISO = departureDisplay (timetableData ! 0)"
proof -
  have "currentTimeISO \<noteq> []" using assms(2) by (auto simp: timePart_def)
  then show ?thesis
    using assms by (simp add: getTimetableDisplay_def timetableLoop_first)
qed

lemma display_between:
  assumes "chronological timetableData" "i + 1 < length timetableData"
    and "timePart currentTimeISO = Inr tp" "timeToSeconds tp = Some (Num c)"
    and "timeToSeconds (departure (timetableData ! i)) = Some (Num d)"
    and "timeToSeconds (arrival (timetableData ! (i + 1))) = Some (Num a)"
    and "d \<le> c" "c < a"
  shows "getTimetableDisplay timetableData currentTimeISO = arrivalDisplay (timetableData ! (i + 1))"
proof -
  let ?cur = "Some (Num c)"
  have i: "i < length timetableData" using assms(2) by simp
  note passed = chronological_passed[OF assms(1) i assms(5,7)]
  have skip: "\<forall>k<i. \<not> jsLess ?cur (timeToSeconds (departure (timetableData ! k))) \<and>
               \<not> jsLess ?cur (timeToSeconds (arrival (timetableData ! Suc k))) \<and>
               \<not> jsLess ?cur (timeToSeconds (departure (timetableData ! Suc k)))"
  proof (intro allI impI)
    fix k assume k: "k < i"
    then have "Suc k < i \<or> Suc k = i" by auto
    with passed k show "\<not> jsLess ?cur (timeToSeconds (departure (timetableData ! k))) \<and>
               \<not> jsLess ?cur (timeToSeconds (arrival (timetableData ! Suc k))) \<and>
               \<not> jsLess ?cur (timeToSeconds (departure (timetableData ! Suc k)))"
      by auto
  qed
  have "timetableLoop timetableData ?cur 0 = timetableLoop timetableData ?cur i"
    using i skip by (rule timetableLoop_skip)
  also have "\<dots> = arrivalDisplay (timetableData ! Suc i)"
    using assms(2) passed(1) assms(5,6,7,8)
    by (intro timetableLoop_between) (simp_all add: jsGreaterEq_def jsLess_def)
  finally have loop: "timetableLoop timetableData ?cur 0 = arrivalDisplay (timetableData ! (i + 1))"
    by simp
  have "currentTimeISO \<noteq> []" using assms(3) by (auto simp: timePart_def)
  moreover have "timetableData \<noteq> []" using i by auto
  ultimately show ?thesis
    using assms(3,4) loop by (simp add: getTimetableDisplay_def)
qed

lemma seconds_0730: "timeToSeconds ''07:30:00'' = Some (Num 27000)"
  by code_simp

lemma seconds_0800: "timeToSeconds ''08:00:00'' = Some (Num 28800)"
  by code_simp

lemma seconds_0830: "timeToSeconds ''08:30:00'' = Some (Num 30600)"
  by code_simp

lemma seconds_0900: "timeToSeconds ''09:00:00'' = Some (Num 32400)"
  by code_simp

lemma two_stop_scenario:
  assumes "length timetableData = 2" "departure (timetableData ! 0) = ''08:00:00''"
    and "arrival (timetableData ! 1) = ''09:00:00''"
  shows "timePart currentTimeISO = Inr ''07:30:00'' \<Longrightarrow>
           getTimetableDisplay timetableData currentTimeISO =
             \<lparr>time = Some ''08:00:00'', label = Some ''DEPARTURE'', targetApiName = None,
              showDistance = False\<rparr>"
    and "timePart currentTimeISO = Inr ''08:30:00'' \<Longrightarrow>
           getTimetableDisplay timetableData currentTimeISO =
             \<lparr>time = Some ''09:00:00'', label = Some (destination (timetableData ! 1)),
              targetApiName = Some (apiName (timetableData ! 1)), showDistance = True\<rparr>"
proof -
  have ne: "timetableData \<noteq> []" using assms(1) by auto
  {
    assume tp: "timePart currentTimeISO = Inr ''07:30:00''"
    have "jsLess (timeToSeconds ''07:30:00'') (timeToSeconds (departure (timetableData ! 0)))"
      unfolding assms(2) seconds_0730 seconds_0800 by (simp add: jsLess_def)
    from display_before_first_departure[OF ne tp this]
    show "getTimetableDisplay timetableData currentTimeISO =
             \<lparr>time = Some ''08:00:00'', label = Some ''DEPARTURE'', targetApiName = None,
              showDistance = False\<rparr>"
      by (simp add: departureDisplay_def assms(2))
  }
  {
    assume tp: "timePart currentTimeISO = Inr ''08:30:00''"
    have iso: "currentTimeISO \<noteq> []" using tp by (auto simp: timePart_def)
    have arr: "arrival (timetableData ! Suc 0) = ''09:00:00''" using assms(3) by simp
    have "timetableLoop timetableData (timeToSeconds ''08:30:00'') 0 = arrivalDisplay (timetableData ! Suc 0)"
      unfolding seconds_0830
      by (rule timetableLoop_between)
        (simp_all add: assms(1,2) arr seconds_0800 seconds_0900 jsLess_def jsGreaterEq_def)
    then show "getTimetableDisplay timetableData currentTimeISO =
             \<lparr>time = Some ''09:00:00'', label = Some (destination (timetableData ! 1)),
              targetApiName = Some (apiName (timetableData ! 1)), showDistance = True\<rparr>"
      using ne iso tp arr by (simp add: getTimetableDisplay_def arrivalDisplay_def)
  }
qed

text \<open>
  C8: on a non-empty timetable, with a current time of day that parses to \<open>c\<close> seconds:
  before the first stop's departure the display is that departure time, labelled DEPARTURE,
  with no target and no distance; in a chronological timetable, from stop \<open>i\<close>'s departure
  until before stop \<open>i + 1\<close>'s arrival the display is the arrival time, the destination and
  the target name of stop \<open>i + 1\<close>, with the distance shown. In particular, with two stops,
  departure 08:00:00 and arrival 09:00:00, the display at 07:30:00 is (08:00:00, DEPARTURE,
  no target, no distance) and at 08:30:00 (09:00:00, destination of the second stop, its
  target name, distance shown).
\<close>

theorem timetable_display_states:
  assumes "timetableData \<noteq> []" and "timePart currentTimeISO = Inr tp"
    and "timeToSeconds tp = Some (Num c)"
  shows "(timeToSeconds (departure (timetableData ! 0)) = Some (Num d0) \<and> c < d0 \<longrightarrow>
            getTimetableDisplay timetableData currentTimeISO =
              \<lparr>time = Some (departure (timetableData ! 0)), label = Some ''DEPARTURE'',
               targetApiName = None, showDistance = False\<rparr>) \<and>
         (chronological timetableData \<and> i + 1 < length timetableData \<and>
          timeToSeconds (departure (timetableData ! i)) = Some (Num d) \<and>
          timeToSeconds (arrival (timetableData ! (i + 1))) = Some (Num a) \<and>
          d \<le> c \<and> c < a \<longrightarrow>
            getTimetableDisplay timetableData currentTimeISO =
              \<lparr>time = Some (arrival (timetableData ! (i + 1))),
               label = Some (destination (timetableData ! (i + 1))),
               targetApiName = Some (apiName (timetableData ! (i + 1))),
               showDistance = True\<rparr>) \<and>
         (length timetableData = 2 \<and> departure (timetableData ! 0) = ''08:00:00'' \<and>
          arrival (timetableData ! 1) = ''09:00:00'' \<longrightarrow>
            (tp = ''07:30:00'' \<longrightarrow>
               getTimetableDisplay timetableData currentTimeISO =
                 \<lparr>time = Some ''08:00:00'', label = Some ''DEPARTURE'', targetApiName = None,
                  showDistance = False\<rparr>) \<and>
            (tp = ''08:30:00'' \<longrightarrow>
               getTimetableDisplay timetableData currentTimeISO =
                 \<lparr>time = Some ''09:00:00'', label = Some (destination (timetableData ! 1)),
                  targetApiName = Some (apiName (timetableData ! 1)), showDistance = True\<rparr>))"
proof (intro conjI impI)
  assume "timeToSeconds (departure (timetableData ! 0)) = Some (Num d0) \<and> c < d0"
  then have "jsLess (timeToSeconds tp) (timeToSeconds (departure (timetableData ! 0)))"
    using assms(3) by (simp add: jsLess_def)
  from display_before_first_departure[OF assms(1,2) this]
  show "getTimetableDisplay timetableData currentTimeISO =
              \<lparr>time = Some (departure (timetableData ! 0)), label = Some ''DEPARTURE'',
               targetApiName = None, showDistance = False\<rparr>"
    by (simp add: departureDisplay_def)
next
  assume h: "chronological timetableData \<and> i + 1 < length timetableData \<and>
          timeToSeconds (departure (timetableData ! i)) = Some (Num d) \<and>
          timeToSeconds (arrival (timetableData ! (i + 1))) = Some (Num a) \<and>
          d \<le> c \<and> c < a"
  then have "getTimetableDisplay timetableData currentTimeISO = arrivalDisplay (timetableData ! (i + 1))"
    using assms(2,3) by (intro display_between[where c=c and d=d and a=a and tp=tp]) simp_all
  then show "getTimetableDisplay timetableData currentTimeISO =
              \<lparr>time = Some (arrival (timetableData ! (i + 1))),
               label = Some (destination (timetableData ! (i + 1))),
               targetApiName = Some (apiName (timetableData ! (i + 1))),
               showDistance = True\<rparr>"
    by (simp add: arrivalDisplay_def)
next
  assume h: "length timetableData = 2 \<and> departure (timetableData ! 0) = ''08:00:00'' \<and>
          arrival (timetableData ! 1) = ''09:00:00''"
  assume "tp = ''07:30:00''"
  with assms(2) h two_stop_scenario(1)[of timetableData currentTimeISO]
  show "getTimetableDisplay timetableData currentTimeISO =
                 \<lparr>time = Some ''08:00:00'', label = Some ''DEPARTURE'', targetApiName = None,
                  showDistance = False\<rparr>"
    by simp
next
  assume h: "length timetableData = 2 \<and> departure (timetableData ! 0) = ''08:00:00'' \<and>
          arrival (timetableData ! 1) = ''09:00:00''"
  assume "tp = ''08:30:00''"
  with assms(2) h two_stop_scenario(2)[of timetableData currentTimeISO]
  show "getTimetableDisplay timetableData currentTimeISO =
                 \<lparr>time = Some ''09:00:00'', label = Some (destination (timetableData ! 1)),
                  targetApiName = Some (apiName (timetableData ! 1)), showDistance = True\<rparr>"
    by simp
qed

theorem timetable_display_states_witness:
  "getTimetableDisplay
     [\<lparr>index = 0, destination = ''Alpha'', arrival = [], departure = ''08:00:00'',
       platform = ''1'', apiName = ''Alpha 1''\<rparr>,
      \<lparr>index = 1, destination = ''Beta'', arrival = ''09:00:00'', departure = [],
       platform = ''2'', apiName = ''Beta 2''\<rparr>]
     ''2024-06-01T07:30:00.000Z'' =
   \<lparr>time = Some ''08:00:00'', label = Some ''DEPARTURE'', targetApiName = None,
    showDistance = False\<rparr> \<and>
   getTimetableDisplay
     [\<lparr>index = 0, destination = ''Alpha'', arrival = [], departure = ''08:00:00'',
       platform = ''1'', apiName = ''Alpha 1''\<rparr>,
      \<lparr>index = 1, destination = ''Beta'', arrival = ''09:00:00'', departure = [],
       platform = ''2'', apiName = ''Beta 2''\<rparr>]
     ''2024-06-01T08:30:00.000Z'' =
   \<lparr>time = Some ''09:00:00'', label = Some ''Beta'', targetApiName = Some ''Beta 2'',
    showDistance = True\<rparr>"
proof -
  let ?tt = "[\<lparr>index = 0, destination = ''Alpha'', arrival = [], departure = ''08:00:00'',
       platform = ''1'', apiName = ''Alpha 1''\<rparr>,
      \<lparr>index = 1, destination = ''Beta'', arrival = ''09:00:00'', departure = [],
       platform = ''2'', apiName = ''Beta 2''\<rparr>]"
  have ne: "?tt \<noteq> []" by simp
  have tp1: "timePart ''2024-06-01T07:30:00.000Z'' = Inr ''07:30:00''" by code_simp
  have tp2: "timePart ''2024-06-01T08:30:00.000Z'' = Inr ''08:30:00''" by code_simp
  have chrono: "chronological ?tt" by code_simp
  have before: "timeToSeconds (departure (?tt ! 0)) = Some (Num 28800) \<and> (27000::int) < 28800"
    by (simp add: seconds_0800)
  have between: "chronological ?tt \<and> 0 + 1 < length ?tt \<and>
      timeToSeconds (departure (?tt ! 0)) = Some (Num 28800) \<and>
      timeToSeconds (arrival (?tt ! (0 + 1))) = Some (Num 32400) \<and>
      (28800::int) \<le> 30600 \<and> (30600::int) < 32400"
    using chrono by (simp add: seconds_0800 seconds_0900)
  from timetable_display_states[OF ne tp1 seconds_0730, of 28800 0 0 0] before
  have a: "getTimetableDisplay ?tt ''2024-06-01T07:30:00.000Z'' =
      \<lparr>time = Some (departure (?tt ! 0)), label = Some ''DEPARTURE'',
       targetApiName = None, showDistance = False\<rparr>"
    by blast
  from timetable_display_states[OF ne tp2 seconds_0830, of 0 0 28800 32400] between
  have b: "getTimetableDisplay ?tt ''2024-06-01T08:30:00.000Z'' =
      \<lparr>time = Some (arrival (?tt ! (0 + 1))), label = Some (destination (?tt ! (0 + 1))),
       targetApiName = Some (apiName (?tt ! (0 + 1))), showDistance = True\<rparr>"
    by blast
  from a b show ?thesis by simp
qed

lemma last_stop_forever:
  assumes "timetableData \<noteq> []"
    and "\<forall>s\<in>set timetableData. \<not> jsLess cur (timeToSeconds (arrival s)) \<and>
                                  \<not> jsLess cur (timeToSeconds (departure s))"
  shows "timetableLoop timetableData cur 0 = arrivalDisplay (last timetableData)"
proof -
  let ?n = "length timetableData"
  have n: "?n - 1 < ?n" using assms(1) by simp
  have all: "\<not> jsLess cur (timeToSeconds (arrival (timetableData ! k))) \<and>
             \<not> jsLess cur (timeToSeconds (departure (timetableData ! k)))" if "k < ?n" for k
    using assms(2) that by simp
  have "timetableLoop timetableData cur 0 = timetableLoop timetableData cur (?n - 1)"
    using n all by (intro timetableLoop_skip) auto
  also have "\<dots> = arrivalDisplay (timetableData ! (?n - 1))"
    using n all[OF n] by (intro timetableLoop_last) simp_all
  finally show ?thesis using assms(1) by (simp add: last_conv_nth)
qed

lemma seconds_0902: "timeToSeconds ''09:02:00'' = Some (Num 32520)"
  by code_simp

text \<open>
  C10 as stated fails: the last stop below has a departure time. Two minutes after its
  arrival the display is not its arrival display but its departure display, with no target
  and no distance.
\<close>

theorem last_stop_departure_counterexample:
  "jsGreaterEq (timeToSeconds ''09:02:00'') (timeToSeconds ''09:00:00'') \<and>
   getTimetableDisplay
     [\<lparr>index = 0, destination = ''Alpha'', arrival = [], departure = ''08:00:00'',
       platform = ''1'', apiName = ''Alpha 1''\<rparr>,
      \<lparr>index = 1, destination = ''Beta'', arrival = ''09:00:00'', departure = ''09:05:00'',
       platform = ''2'', apiName = ''Beta 2''\<rparr>]
     ''2024-06-01T09:02:00.000Z'' =
   \<lparr>time = Some ''09:05:00'', label = Some ''DEPARTURE'', targetApiName = None,
    showDistance = False\<rparr>"
  by code_simp

lemma schedule_last:
  assumes "tt \<noteq> []"
  shows "schedule tt = schedule (butlast tt) @
           [timeToSeconds (arrival (last tt)), timeToSeconds (departure (last tt))]"
proof -
  have "tt = butlast tt @ [last tt]" using assms by simp
  then have "schedule tt = schedule (butlast tt) @ schedule [last tt]"
    by (metis schedule_append)
  then show ?thesis by (simp add: schedule_def)
qed

lemma chronological_all_passed:
  assumes "chronological tt" "tt \<noteq> []"
    and "timeToSeconds (arrival (last tt)) = Some (Num a)" "a \<le> c"
    and "timeToSeconds (departure (last tt)) = None \<or>
         (\<exists>d. timeToSeconds (departure (last tt)) = Some (Num d) \<and> d \<le> c)"
  shows "\<forall>s\<in>set tt. \<not> jsLess (Some (Num c)) (timeToSeconds (arrival s)) \<and>
                      \<not> jsLess (Some (Num c)) (timeToSeconds (departure s))"
proof
  fix s assume s: "s \<in> set tt"
  have "chronoFrom 0 (schedule (butlast tt) @ Some (Num a) # [timeToSeconds (departure (last tt))])"
    using assms(1,3) schedule_last[OF assms(2)] by (simp add: chronological_def)
  from chronoFrom_before[OF this]
  have a0: "0 \<le> a"
    and pre: "\<forall>t\<in>set (schedule (butlast tt)). t = None \<or> (\<exists>x. t = Some (Num x) \<and> x \<le> a)"
    by simp_all
  have c0: "0 \<le> c" using a0 assms(4) by simp
  have "set tt = set (butlast tt @ [last tt])" using assms(2) by simp
  then have "s \<in> set (butlast tt) \<or> s = last tt"
    using s by auto
  then show "\<not> jsLess (Some (Num c)) (timeToSeconds (arrival s)) \<and>
             \<not> jsLess (Some (Num c)) (timeToSeconds (departure s))"
  proof
    assume "s \<in> set (butlast tt)"
    then have "timeToSeconds (arrival s) \<in> set (schedule (butlast tt))"
      "timeToSeconds (departure s) \<in> set (schedule (butlast tt))"
      by (auto simp: schedule_def)
    with pre have a: "timeToSeconds (arrival s) = None \<or>
        (\<exists>x. timeToSeconds (arrival s) = Some (Num x) \<and> x \<le> a)"
      and b: "timeToSeconds (departure s) = None \<or>
        (\<exists>x. timeToSeconds (departure s) = Some (Num x) \<and> x \<le> a)"
      by blast+
    show ?thesis
      using not_before[OF a assms(4) c0] not_before[OF b assms(4) c0] by simp
  next
    assume l: "s = last tt"
    have "\<not> jsLess (Some (Num c)) (timeToSeconds (arrival s))"
      using l assms(3,4) by (simp add: jsLess_def)
    moreover have "\<not> jsLess (Some (Num c)) (timeToSeconds (departure s))"
      using l assms(5) c0 by (auto simp: jsLess_def)
    ultimately show ?thesis by simp
  qed
qed

text \<open>
  C10, amended: on a non-empty timetable, whenever the time of day can be extracted from the
  current-time string, the display is never the all-null one: the loop always returns from
  inside an iteration, with the departure display or the arrival display of some stop, so the
  return after the loop is not reached. Once the current time is before none of the
  timetable's arrival and departure times (in a chronological timetable: at or after the
  last stop's arrival and, when the last stop has a departure time, at or after that too),
  the display is the last stop's arrival time, destination and target name, with the
  distance shown, and stays so.
\<close>

theorem timetable_display_never_null:
  assumes "timetableData \<noteq> []" and "timePart currentTimeISO = Inr tp"
  shows "getTimetableDisplay timetableData currentTimeISO \<noteq> nullDisplay \<and>
    (\<exists>s\<in>set timetableData.
       getTimetableDisplay timetableData currentTimeISO = departureDisplay s \<or>
       getTimetableDisplay timetableData currentTimeISO = arrivalDisplay s) \<and>
    ((\<forall>s\<in>set timetableData.
        \<not> jsLess (timeToSeconds tp) (timeToSeconds (arrival s)) \<and>
        \<not> jsLess (timeToSeconds tp) (timeToSeconds (departure s))) \<longrightarrow>
     getTimetableDisplay timetableData currentTimeISO =
       \<lparr>time = Some (arrival (last timetableData)),
        label = Some (destination (last timetableData)),
        targetApiName = Some (apiName (last timetableData)), showDistance = True\<rparr>) \<and>
    (chronological timetableData \<and> timeToSeconds tp = Some (Num c) \<and>
     timeToSeconds (arrival (last timetableData)) = Some (Num a) \<and> a \<le> c \<and>
     (timeToSeconds (departure (last timetableData)) = None \<or>
      (\<exists>d. timeToSeconds (departure (last timetableData)) = Some (Num d) \<and> d \<le> c)) \<longrightarrow>
     getTimetableDisplay timetableData currentTimeISO =
       \<lparr>time = Some (arrival (last timetableData)),
        label = Some (destination (last timetableData)),
        targetApiName = Some (apiName (last timetableData)), showDistance = True\<rparr>)"
proof -
  have iso: "currentTimeISO \<noteq> []" using assms(2) by (auto simp: timePart_def)
  have eq: "getTimetableDisplay timetableData currentTimeISO =
      timetableLoop timetableData (timeToSeconds tp) 0"
    using assms iso by (simp add: getTimetableDisplay_def)
  have "0 < length timetableData" using assms(1) by simp
  from timetableLoop_returns[OF this, of "timeToSeconds tp"]
  have ret: "\<exists>s\<in>set timetableData.
       getTimetableDisplay timetableData currentTimeISO = departureDisplay s \<or>
       getTimetableDisplay timetableData currentTimeISO = arrivalDisplay s"
    unfolding eq .
  then have nonnull: "getTimetableDisplay timetableData currentTimeISO \<noteq> nullDisplay"
    by (auto simp: nullDisplay_def departureDisplay_def arrivalDisplay_def)
  have final: "getTimetableDisplay timetableData currentTimeISO =
       \<lparr>time = Some (arrival (last timetableData)),
        label = Some (destination (last timetableData)),
        targetApiName = Some (apiName (last timetableData)), showDistance = True\<rparr>"
    if "\<forall>s\<in>set timetableData.
        \<not> jsLess (timeToSeconds tp) (timeToSeconds (arrival s)) \<and>
        \<not> jsLess (timeToSeconds tp) (timeToSeconds (departure s))"
    using last_stop_forever[OF assms(1) that] unfolding eq by (simp add: arrivalDisplay_def)
  have chrono: "getTimetableDisplay timetableData currentTimeISO =
       \<lparr>time = Some (arrival (last timetableData)),
        label = Some (destination (last timetableData)),
        targetApiName = Some (apiName (last timetableData)), showDistance = True\<rparr>"
    if h: "chronological timetableData \<and> timeToSeconds tp = Some (Num c) \<and>
     timeToSeconds (arrival (last timetableData)) = Some (Num a) \<and> a \<le> c \<and>
     (timeToSeconds (departure (last timetableData)) = None \<or>
      (\<exists>d. timeToSeconds (departure (last timetableData)) = Some (Num d) \<and> d \<le> c))"
  proof -
    from h have "\<forall>s\<in>set timetableData.
        \<not> jsLess (Some (Num c)) (timeToSeconds (arrival s)) \<and>
        \<not> jsLess (Some (Num c)) (timeToSeconds (departure s))"
      by (intro chronological_all_passed[where a=a] assms(1)) simp_all
    with h final show ?thesis by simp
  qed
  from nonnull ret final chrono show ?thesis by blast
qed

theorem timetable_display_never_null_witness:
  "getTimetableDisplay
     [\<lparr>index = 0, destination = ''Alpha'', arrival = [], departure = ''08:00:00'',
       platform = ''1'', apiName = ''Alpha 1''\<rparr>,
      \<lparr>index = 1, destination = ''Beta'', arrival = ''09:00:00'', departure = [],
       platform = ''2'', apiName = ''Beta 2''\<rparr>]
     ''2024-06-01T09:02:00.000Z'' \<noteq> nullDisplay \<and>
   getTimetableDisplay
     [\<lparr>index = 0, destination = ''Alpha'', arrival = [], departure = ''08:00:00'',
       platform = ''1'', apiName = ''Alpha 1''\<rparr>,
      \<lparr>index = 1, destination = ''Beta'', arrival = ''09:00:00'', departure = [],
       platform = ''2'', apiName = ''Beta 2''\<rparr>]
     ''2024-06-01T09:02:00.000Z'' =
   \<lparr>time = Some ''09:00:00'', label = Some ''Beta'', targetApiName = Some ''Beta 2'',
    showDistance = True\<rparr> \<and>
   getTimetableDisplay
     [\<lparr>index = 0, destination = ''Alpha'', arrival = [], departure = ''08:00:00'',
       platform = ''1'', apiName = ''Alpha 1''\<rparr>,
      \<lparr>index = 1, destination = ''Beta'', arrival = ''09:00:00'', departure = ''09:00:00'',
       platform = ''2'', apiName = ''Beta 2''\<rparr>]
     ''2024-06-01T09:02:00.000Z'' =
   \<lparr>time = Some ''09:00:00'', label = Some ''Beta'', targetApiName = Some ''Beta 2'',
    showDistance = True\<rparr>"
proof -
  let ?tt = "[\<lparr>index = 0, destination = ''Alpha'', arrival = [], departure = ''08:00:00'',
       platform = ''1'', apiName = ''Alpha 1''\<rparr>,
      \<lparr>index = 1, destination = ''Beta'', arrival = ''09:00:00'', departure = [],
       platform = ''2'', apiName = ''Beta 2''\<rparr>]"
  let ?tt2 = "[\<lparr>index = 0, destination = ''Alpha'', arrival = [], departure = ''08:00:00'',
       platform = ''1'', apiName = ''Alpha 1''\<rparr>,
      \<lparr>index = 1, destination = ''Beta'', arrival = ''09:00:00'', departure = ''09:00:00'',
       platform = ''2'', apiName = ''Beta 2''\<rparr>]"
  have ne: "?tt \<noteq> []" and ne2: "?tt2 \<noteq> []" by simp_all
  have tp: "timePart ''2024-06-01T09:02:00.000Z'' = Inr ''09:02:00''" by code_simp
  have empty: "timeToSeconds [] = None" by (simp add: timeToSeconds_def)
  have past: "\<forall>s\<in>set ?tt.
        \<not> jsLess (timeToSeconds ''09:02:00'') (timeToSeconds (arrival s)) \<and>
        \<not> jsLess (timeToSeconds ''09:02:00'') (timeToSeconds (departure s))"
    by (simp add: seconds_0902 seconds_0800 seconds_0900 empty jsLess_def)
  have chrono: "chronological ?tt2" by code_simp
  have late: "chronological ?tt2 \<and> timeToSeconds ''09:02:00'' = Some (Num 32520) \<and>
     timeToSeconds (arrival (last ?tt2)) = Some (Num 32400) \<and> (32400::int) \<le> 32520 \<and>
     (timeToSeconds (departure (last ?tt2)) = None \<or>
      (\<exists>d. timeToSeconds (departure (last ?tt2)) = Some (Num d) \<and> d \<le> 32520))"
    using chrono by (simp add: seconds_0902 seconds_0900)
  from timetable_display_never_null[OF ne tp, of 0 0] past
  have 1: "getTimetableDisplay ?tt ''2024-06-01T09:02:00.000Z'' \<noteq> nullDisplay"
    and 2: "getTimetableDisplay ?tt ''2024-06-01T09:02:00.000Z'' =
       \<lparr>time = Some (arrival (last ?tt)), label = Some (destination (last ?tt)),
        targetApiName = Some (apiName (last ?tt)), showDistance = True\<rparr>"
    by blast+
  from timetable_display_never_null[OF ne2 tp, of 32520 32400] late
  have 3: "getTimetableDisplay ?tt2 ''2024-06-01T09:02:00.000Z'' =
       \<lparr>time = Some (arrival (last ?tt2)), label = Some (destination (last ?tt2)),
        targetApiName = Some (apiName (last ?tt2)), showDistance = True\<rparr>"
    by blast
  from 1 2 3 show ?thesis by simp
qed

section \<open>Distances on a meridian and on the equator, and the walk at positive distances\<close>

lemma pi_ge_three: "3 \<le> pi"
proof -
  have "sin (pi / 6) \<le> pi / 6" by (rule sin_x_le_x) simp
  then show ?thesis by (simp add: sin_30)
qed

lemma atan2_sin_cos:
  assumes "0 \<le> x" "x < pi / 2"
  shows "atan2 (sin x) (cos x) = x"
proof -
  have c: "0 < cos x" using assms by (intro cos_gt_zero_pi) simp_all
  have "arctan (sin x / cos x) = x"
    using arctan_tan[of x] assms by (simp add: tan_def)
  with c show ?thesis by (simp add: atan2_def)
qed

lemma haversine_angle:
  assumes "\<bar>x\<bar> < pi / 2"
  shows "2 * atan2 (sqrt (sin x * sin x)) (sqrt (1 - sin x * sin x)) = 2 * \<bar>x\<bar>"
proof -
  have s: "sqrt (sin x * sin x) = sin \<bar>x\<bar>"
  proof (cases "0 \<le> x")
    case True
    then have "0 \<le> sin x" using assms by (intro sin_ge_zero) simp_all
    with True show ?thesis by simp
  next
    case False
    then have "0 \<le> sin (- x)" using assms by (intro sin_ge_zero) simp_all
    with False show ?thesis by simp
  qed
  have "1 - sin x * sin x = cos x * cos x"
    using sin_cos_squared_add3[of x] by (simp add: algebra_simps)
  moreover have "0 < cos x" using assms by (intro cos_gt_zero_pi) simp_all
  ultimately have c: "sqrt (1 - sin x * sin x) = cos \<bar>x\<bar>" by simp
  show ?thesis
    unfolding s c using atan2_sin_cos[of "\<bar>x\<bar>"] assms by simp
qed

lemma calculateDistance_same_longitude:
  assumes "\<bar>lat2 - lat1\<bar> < 180"
  shows "calculateDistance lat1 lon lat2 lon = 6371000 * (\<bar>lat2 - lat1\<bar> * pi / 180)"
proof -
  let ?x = "(lat2 - lat1) * pi / 180 / 2"
  have "\<bar>?x\<bar> = \<bar>lat2 - lat1\<bar> * pi / 360" by (simp add: abs_mult)
  also have "\<dots> < 180 * pi / 360" using assms by simp
  finally have x: "\<bar>?x\<bar> < pi / 2" by simp
  have "calculateDistance lat1 lon lat2 lon =
      6371000 * (2 * atan2 (sqrt (sin ?x * sin ?x)) (sqrt (1 - sin ?x * sin ?x)))"
    by (simp add: calculateDistance_def Let_def)
  also have "\<dots> = 6371000 * (2 * \<bar>?x\<bar>)"
    using haversine_angle[OF x] by simp
  also have "\<dots> = 6371000 * (\<bar>lat2 - lat1\<bar> * pi / 180)"
    by (simp add: abs_mult)
  finally show ?thesis .
qed

lemma calculateDistance_equator:
  assumes "\<bar>lon2 - lon1\<bar> < 180"
  shows "calculateDistance 0 lon1 0 lon2 = 6371000 * (\<bar>lon2 - lon1\<bar> * pi / 180)"
proof -
  let ?x = "(lon2 - lon1) * pi / 180 / 2"
  have "\<bar>?x\<bar> = \<bar>lon2 - lon1\<bar> * pi / 360" by (simp add: abs_mult)
  also have "\<dots> < 180 * pi / 360" using assms by simp
  finally have x: "\<bar>?x\<bar> < pi / 2" by simp
  have "calculateDistance 0 lon1 0 lon2 =
      6371000 * (2 * atan2 (sqrt (sin ?x * sin ?x)) (sqrt (1 - sin ?x * sin ?x)))"
    by (simp add: calculateDistance_def Let_def)
  also have "\<dots> = 6371000 * (2 * \<bar>?x\<bar>)"
    using haversine_angle[OF x] by simp
  also have "\<dots> = 6371000 * (\<bar>lon2 - lon1\<bar> * pi / 180)"
    by (simp add: abs_mult)
  finally show ?thesis .
qed

lemma followLoop_step:
  "followLoop cs i r =
     (if i < length cs - 1 \<and> r > 0 then
        (if segmentLength cs i \<ge> r then pointAt cs i (r / segmentLength cs i)
         else followLoop cs (Suc i) (r - segmentLength cs i))
      else lastCoord cs)"
  by (subst followLoop.simps) (simp add: Let_def segmentLength_def pointAt_def)

lemma followLoop_stops:
  assumes "i \<le> k" "k < length cs - 1" "0 < r"
    and "\<forall>j. i \<le> j \<and> j < k \<longrightarrow> pathLength cs i (Suc j) < r"
    and "r \<le> pathLength cs i (Suc k)"
  shows "followLoop cs i r =
           pointAt cs k ((r - pathLength cs i k) / segmentLength cs k)"
  using assms
proof (induction "k - i" arbitrary: i r)
  case 0
  then have "i = k" by simp
  with 0 show ?case by (subst followLoop_step) (simp add: pathLength_def)
next
  case (Suc n)
  then have lt: "i < k" and n: "n = k - Suc i" by simp_all
  have seg: "segmentLength cs i < r"
    using Suc.prems(4) lt by (auto simp: pathLength_def)
  have sumsplit: "pathLength cs i m = segmentLength cs i + pathLength cs (Suc i) m" if "i < m" for m
    using that by (simp add: pathLength_def sum.atLeast_Suc_lessThan)
  have step: "followLoop cs i r = followLoop cs (Suc i) (r - segmentLength cs i)"
    using lt Suc.prems(2,3) seg by (subst followLoop_step) simp
  have a: "\<forall>j. Suc i \<le> j \<and> j < k \<longrightarrow> pathLength cs (Suc i) (Suc j) < r - segmentLength cs i"
  proof (intro allI impI)
    fix j assume j: "Suc i \<le> j \<and> j < k"
    then have "pathLength cs i (Suc j) < r" using Suc.prems(4) by simp
    moreover have "pathLength cs i (Suc j) = segmentLength cs i + pathLength cs (Suc i) (Suc j)"
      using j by (intro sumsplit) simp
    ultimately show "pathLength cs (Suc i) (Suc j) < r - segmentLength cs i" by simp
  qed
  have b: "r - segmentLength cs i \<le> pathLength cs (Suc i) (Suc k)"
    using Suc.prems(5) sumsplit[of "Suc k"] lt by simp
  have c: "pathLength cs i k = segmentLength cs i + pathLength cs (Suc i) k"
    using lt by (rule sumsplit)
  from Suc.hyps(1)[OF n _ Suc.prems(2) _ a b] lt seg
  have "followLoop cs (Suc i) (r - segmentLength cs i) =
      pointAt cs k ((r - segmentLength cs i - pathLength cs (Suc i) k) / segmentLength cs k)"
    by simp
  with step c show ?case by (simp add: algebra_simps)
qed

lemma followLoop_runs_out:
  assumes "i \<le> length cs - 1"
    and "\<forall>j. i \<le> j \<and> j < length cs - 1 \<longrightarrow> pathLength cs i (Suc j) < r"
  shows "followLoop cs i r = lastCoord cs"
  using assms
proof (induction "length cs - 1 - i" arbitrary: i r)
  case 0
  then have "\<not> i < length cs - 1" by simp
  then show ?case by (subst followLoop_step) simp
next
  case (Suc n)
  then have lt: "i < length cs - 1" and n: "n = length cs - 1 - Suc i" by simp_all
  show ?case
  proof (cases "r > 0")
    case False
    then show ?thesis by (subst followLoop_step) simp
  next
    case True
    have seg: "segmentLength cs i < r"
      using Suc.prems(2) lt by (auto simp: pathLength_def)
    have step: "followLoop cs i r = followLoop cs (Suc i) (r - segmentLength cs i)"
      using lt True seg by (subst followLoop_step) simp
    have a: "\<forall>j. Suc i \<le> j \<and> j < length cs - 1 \<longrightarrow>
        pathLength cs (Suc i) (Suc j) < r - segmentLength cs i"
    proof (intro allI impI)
      fix j assume j: "Suc i \<le> j \<and> j < length cs - 1"
      then have "pathLength cs i (Suc j) < r" using Suc.prems(2) by simp
      moreover have "pathLength cs i (Suc j) = segmentLength cs i + pathLength cs (Suc i) (Suc j)"
        using j by (simp add: pathLength_def sum.atLeast_Suc_lessThan)
      ultimately show "pathLength cs (Suc i) (Suc j) < r - segmentLength cs i" by simp
    qed
    from Suc.hyps(1)[OF n _ a] lt step show ?thesis by simp
  qed
qed

text \<open>
  For a positive distance the walk does what is asked of it: it stops in the first segment at
  whose end the path walked from the start index is at least as long as the distance, at the
  fraction of that segment which the remaining distance makes up; when the whole path to the
  end of the route is shorter than the distance, or the start index is the last index, it
  returns the last coordinate.
\<close>

lemma followRoutePath_positive_distance:
  assumes "coords \<noteq> []" "0 < distanceMeters"
  shows "(startIndex \<le> k \<and> k < length coords - 1 \<and>
          (\<forall>j. startIndex \<le> j \<and> j < k \<longrightarrow> pathLength coords startIndex (Suc j) < distanceMeters) \<and>
          distanceMeters \<le> pathLength coords startIndex (Suc k) \<longrightarrow>
            followRoutePath coords startIndex distanceMeters =
              Inr (pointAt coords k
                     ((distanceMeters - pathLength coords startIndex k) /
                      segmentLength coords k))) \<and>
         ((\<forall>j. startIndex \<le> j \<and> j < length coords - 1 \<longrightarrow>
               pathLength coords startIndex (Suc j) < distanceMeters) \<longrightarrow>
            followRoutePath coords startIndex distanceMeters = Inr (lastCoord coords))"
proof (intro conjI impI)
  assume h: "startIndex \<le> k \<and> k < length coords - 1 \<and>
          (\<forall>j. startIndex \<le> j \<and> j < k \<longrightarrow> pathLength coords startIndex (Suc j) < distanceMeters) \<and>
          distanceMeters \<le> pathLength coords startIndex (Suc k)"
  then have "\<not> startIndex \<ge> length coords - 1" by simp
  moreover have "followLoop coords startIndex distanceMeters =
      pointAt coords k ((distanceMeters - pathLength coords startIndex k) /
                      segmentLength coords k)"
    using h assms(2) by (intro followLoop_stops) simp_all
  ultimately show "followRoutePath coords startIndex distanceMeters =
              Inr (pointAt coords k
                     ((distanceMeters - pathLength coords startIndex k) /
                      segmentLength coords k))"
    using assms(1) by (simp add: followRoutePath_def)
next
  assume h: "\<forall>j. startIndex \<le> j \<and> j < length coords - 1 \<longrightarrow>
               pathLength coords startIndex (Suc j) < distanceMeters"
  show "followRoutePath coords startIndex distanceMeters = Inr (lastCoord coords)"
  proof (cases "startIndex \<ge> length coords - 1")
    case True
    with assms(1) show ?thesis by (simp add: followRoutePath_def)
  next
    case False
    then have "startIndex \<le> length coords - 1" by simp
    from followLoop_runs_out[OF this h] False assms(1)
    show ?thesis by (simp add: followRoutePath_def)
  qed
qed

lemma arcMeters_bounds:
  assumes "0 < deg"
  shows "106183 * deg \<le> arcMeters deg" and "arcMeters deg < 141578 * deg"
proof -
  have eq: "arcMeters deg = (6371000 * pi / 180) * deg" by (simp add: arcMeters_def)
  have lo: "106183 \<le> 6371000 * pi / 180" using pi_ge_three by simp
  have hi: "6371000 * pi / 180 < 141578" using pi_less_4 by simp
  show "106183 * deg \<le> arcMeters deg"
    unfolding eq using lo assms by (intro mult_right_mono) simp_all
  show "arcMeters deg < 141578 * deg"
    unfolding eq using hi assms by (intro mult_strict_right_mono) simp_all
qed

lemma equator_distance:
  assumes "\<bar>lon2 - lon1\<bar> < 180"
  shows "calculateDistance 0 lon1 0 lon2 = arcMeters \<bar>lon2 - lon1\<bar>"
  using calculateDistance_equator[OF assms] by (simp add: arcMeters_def)

lemma meridian_distance:
  assumes "\<bar>lat2 - lat1\<bar> < 180"
  shows "calculateDistance lat1 lon lat2 lon = arcMeters \<bar>lat2 - lat1\<bar>"
  using calculateDistance_same_longitude[OF assms] by (simp add: arcMeters_def)

text \<open>
  The scenario of the three points on the equator, a thousandth of a degree apart: 150 meters
  ahead of the first point lies in the second segment, at the fraction that the 150 meters
  less the first segment make up of the second.
\<close>

lemma three_point_scenario:
  "followRoutePath
     [\<lparr>latitude = 0, longitude = 0, height = None, gradient = None\<rparr>,
      \<lparr>latitude = 0, longitude = 1 / 1000, height = None, gradient = None\<rparr>,
      \<lparr>latitude = 0, longitude = 2 / 1000, height = None, gradient = None\<rparr>] 0 150 =
   Inr \<lparr>latitude = 0,
        longitude = 1 / 1000 + 1 / 1000 * ((150 - arcMeters (1 / 1000)) / arcMeters (1 / 1000))\<rparr>"
  and "0 < (150 - arcMeters (1 / 1000)) / arcMeters (1 / 1000)"
  and "(150 - arcMeters (1 / 1000)) / arcMeters (1 / 1000) < 1"
proof -
  let ?cs = "[\<lparr>latitude = 0, longitude = 0, height = None, gradient = None\<rparr>,
      \<lparr>latitude = 0, longitude = 1 / 1000, height = None, gradient = None\<rparr>,
      \<lparr>latitude = 0, longitude = 2 / 1000, height = None, gradient = None\<rparr>]"
  let ?s = "arcMeters (1 / 1000)"
  have lo: "106 < ?s" and hi: "?s < 142"
    using arcMeters_bounds[of "1 / 1000"] by simp_all
  have s0: "segmentLength ?cs 0 = ?s"
    using equator_distance[of "1 / 1000" 0] by (simp add: segmentLength_def)
  have s1: "segmentLength ?cs (Suc 0) = ?s"
    using equator_distance[of "2 / 1000" "1 / 1000"] by (simp add: segmentLength_def)
  have "followLoop ?cs 0 150 = followLoop ?cs (Suc 0) (150 - ?s)"
    using hi s0 by (subst followLoop_step) simp
  also have "\<dots> = pointAt ?cs (Suc 0) ((150 - ?s) / ?s)"
    using lo hi s1 by (subst followLoop_step) simp
  finally show "followRoutePath ?cs 0 150 =
      Inr \<lparr>latitude = 0, longitude = 1 / 1000 + 1 / 1000 * ((150 - ?s) / ?s)\<rparr>"
    by (simp add: followRoutePath_def pointAt_def)
  show "0 < (150 - ?s) / ?s" using lo hi by simp
  show "(150 - ?s) / ?s < 1" using lo hi by simp
qed

lemma arcMeters_zero: "arcMeters 0 = 0"
  by (simp add: arcMeters_def)

lemma equator_route_distances:
  fixes cs :: "coordinate list"
  defines "cs \<equiv> [\<lparr>latitude = 1 / 100, longitude = 9, height = None, gradient = None\<rparr>,
      \<lparr>latitude = 0, longitude = 9, height = None, gradient = None\<rparr>,
      \<lparr>latitude = - (1 / 100), longitude = 9, height = None, gradient = None\<rparr>]"
  shows "distTo cs (1 / 100) 9 0 = 0"
    and "distTo cs (1 / 100) 9 (Suc 0) = arcMeters (1 / 100)"
    and "distTo cs (1 / 100) 9 (Suc (Suc 0)) = arcMeters (2 / 100)"
    and "distTo cs 0 9 0 = arcMeters (1 / 100)"
    and "distTo cs 0 9 (Suc 0) = 0"
    and "distTo cs 0 9 (Suc (Suc 0)) = arcMeters (1 / 100)"
    and "segmentLength cs 0 = arcMeters (1 / 100)"
    and "segmentLength cs (Suc 0) = arcMeters (1 / 100)"
  using meridian_distance[of "1 / 100" "1 / 100" 9] meridian_distance[of 0 "1 / 100" 9]
    meridian_distance[of "- (1 / 100)" "1 / 100" 9] meridian_distance[of "1 / 100" 0 9]
    meridian_distance[of 0 0 9] meridian_distance[of "- (1 / 100)" 0 9]
  by (simp_all add: distTo_def segmentLength_def cs_def arcMeters_zero)

lemma equator_route_walks:
  fixes cs :: "coordinate list"
  defines "cs \<equiv> [\<lparr>latitude = 1 / 100, longitude = 9, height = None, gradient = None\<rparr>,
      \<lparr>latitude = 0, longitude = 9, height = None, gradient = None\<rparr>,
      \<lparr>latitude = - (1 / 100), longitude = 9, height = None, gradient = None\<rparr>]"
  shows "findNearestCoordinateIndex cs (1 / 100) 9 = 0"
    and "followRoutePath cs 0 1500 =
           Inr \<lparr>latitude = - (1 / 100) * ((1500 - arcMeters (1 / 100)) / arcMeters (1 / 100)),
                longitude = 9\<rparr>"
    and "findNearestCoordinateIndex cs 0 9 = 1"
    and "followRoutePath cs 1 5 =
           Inr \<lparr>latitude = - (1 / 100) * (5 / arcMeters (1 / 100)), longitude = 9\<rparr>"
proof -
  let ?s = "arcMeters (1 / 100)"
  have lo: "1061 < ?s" and hi: "?s < 1416"
    using arcMeters_bounds[of "1 / 100"] by simp_all
  have two: "0 < arcMeters (2 / 100)"
    using arcMeters_bounds(1)[of "2 / 100"] by simp
  note d = equator_route_distances[folded cs_def]
  have len: "length cs = 3" by (simp add: cs_def)
  show "findNearestCoordinateIndex cs (1 / 100) 9 = 0"
    unfolding findNearestCoordinateIndex_def
    using lo two by (simp add: nearestLoop_step len d)
  show "findNearestCoordinateIndex cs 0 9 = 1"
    unfolding findNearestCoordinateIndex_def
    using lo by (simp add: nearestLoop_step len d)
  have "followLoop cs 0 1500 = followLoop cs (Suc 0) (1500 - ?s)"
    using hi by (subst followLoop_step) (simp add: len d)
  also have "\<dots> = pointAt cs (Suc 0) ((1500 - ?s) / ?s)"
    using lo hi by (subst followLoop_step) (simp add: len d)
  finally show "followRoutePath cs 0 1500 =
           Inr \<lparr>latitude = - (1 / 100) * ((1500 - ?s) / ?s), longitude = 9\<rparr>"
    by (simp add: followRoutePath_def pointAt_def cs_def)
  have "followLoop cs (Suc 0) 5 = pointAt cs (Suc 0) (5 / ?s)"
    using lo by (subst followLoop_step) (simp add: len d)
  then show "followRoutePath cs 1 5 =
           Inr \<lparr>latitude = - (1 / 100) * (5 / ?s), longitude = 9\<rparr>"
    by (simp add: followRoutePath_def pointAt_def cs_def)
qed

text \<open>
  C3: the route below runs south along a meridian and crosses the equator at its second
  point. The marker was detected at the first point, 1500 meters ahead by the telemetry, and
  later met on the spot at the second point, 5 meters ahead: it carries an on-spot latitude
  of 0, an on-spot longitude and an on-spot distance, and detection data as well. The
  resolver takes the latitude 0 for a missing value and resolves the marker by the detection
  method (its summary counts no marker for method 1 and one for method 2); the position it
  stores is not the one that the on-spot method yields.
\<close>

theorem onspot_latitude_zero_resolved_by_detection:
  "processMarkers
     \<lparr>coordinates = Some
        [\<lparr>latitude = 1 / 100, longitude = 9, height = None, gradient = None\<rparr>,
         \<lparr>latitude = 0, longitude = 9, height = None, gradient = None\<rparr>,
         \<lparr>latitude = - (1 / 100), longitude = 9, height = None, gradient = None\<rparr>],
      markers = Some
        [\<lparr>stationName = Some ''Equator Halt'', markerType = Some ''Station'',
          detectedAt = Some \<lparr>latitude = 1 / 100, longitude = 9\<rparr>,
          distanceAheadMeters = Some 1500, timestamp = Some ''2026-01-03T12:35:00.000Z'',
          platformLength = None, onspot_latitude = Some 0, onspot_longitude = Some 9,
          onspot_timestamp = Some ''2026-01-03T12:36:00.000Z'', spoton_distance = Some 5,
          markerLatitude = None, markerLongitude = None, calculationMethod = None,
          isTimetableStation = None\<rparr>],
      timetable = None\<rparr> [''Equator Halt''] =
   Inr (\<lparr>coordinates = Some
           [\<lparr>latitude = 1 / 100, longitude = 9, height = None, gradient = None\<rparr>,
            \<lparr>latitude = 0, longitude = 9, height = None, gradient = None\<rparr>,
            \<lparr>latitude = - (1 / 100), longitude = 9, height = None, gradient = None\<rparr>],
         markers = Some
           [\<lparr>stationName = Some ''Equator Halt'', markerType = Some ''Station'',
             detectedAt = None, distanceAheadMeters = None, timestamp = None,
             platformLength = None, onspot_latitude = None, onspot_longitude = None,
             onspot_timestamp = None, spoton_distance = None,
             markerLatitude =
               Some (- (1 / 100) * ((1500 - arcMeters (1 / 100)) / arcMeters (1 / 100))),
             markerLongitude = Some 9, calculationMethod = None,
             isTimetableStation = Some True\<rparr>],
         timetable = None\<rparr>,
        \<lparr>method1Count = 0, method2Count = 1, errorCount = 0\<rparr>, 1) \<and>
   followRoutePath
     [\<lparr>latitude = 1 / 100, longitude = 9, height = None, gradient = None\<rparr>,
      \<lparr>latitude = 0, longitude = 9, height = None, gradient = None\<rparr>,
      \<lparr>latitude = - (1 / 100), longitude = 9, height = None, gradient = None\<rparr>]
     (findNearestCoordinateIndex
        [\<lparr>latitude = 1 / 100, longitude = 9, height = None, gradient = None\<rparr>,
         \<lparr>latitude = 0, longitude = 9, height = None, gradient = None\<rparr>,
         \<lparr>latitude = - (1 / 100), longitude = 9, height = None, gradient = None\<rparr>] 0 9) 5 =
   Inr \<lparr>latitude = - (1 / 100) * (5 / arcMeters (1 / 100)), longitude = 9\<rparr> \<and>
   - (1 / 100) * ((1500 - arcMeters (1 / 100)) / arcMeters (1 / 100)) \<noteq>
   - (1 / 100) * (5 / arcMeters (1 / 100))"
proof -
  let ?s = "arcMeters (1 / 100)"
  have lo: "1061 < ?s" and hi: "?s < 1416"
    using arcMeters_bounds[of "1 / 100"] by simp_all
  have differ: "- (1 / 100) * ((1500 - ?s) / ?s) \<noteq> - (1 / 100) * (5 / ?s)"
    using lo hi by (simp add: field_simps)
  show ?thesis
    using differ equator_route_walks
    by (simp add: processMarkers_def resolveMarker_def cleanUp_def truthyNum_def Let_def)
qed

theorem distance_along_route_witness:
  "calculateDistanceAlongRoute
     (Some \<lparr>coordinates = Some
              [\<lparr>latitude = 1 / 100, longitude = 9, height = None, gradient = None\<rparr>,
               \<lparr>latitude = 0, longitude = 9, height = None, gradient = None\<rparr>,
               \<lparr>latitude = - (1 / 100), longitude = 9, height = None, gradient = None\<rparr>],
            markers = None, timetable = None\<rparr>)
     (1 / 100) 9 (- (1 / 100)) 9 =
   Inr (Some (arcMeters (1 / 100) + arcMeters (1 / 100))) \<and>
   calculateDistanceAlongRoute
     (Some \<lparr>coordinates = Some
              [\<lparr>latitude = 1 / 100, longitude = 9, height = None, gradient = None\<rparr>,
               \<lparr>latitude = 0, longitude = 9, height = None, gradient = None\<rparr>,
               \<lparr>latitude = - (1 / 100), longitude = 9, height = None, gradient = None\<rparr>],
            markers = None, timetable = None\<rparr>)
     (- (1 / 100)) 9 (1 / 100) 9 = Inr (Some 0)"
proof -
  let ?cs = "[\<lparr>latitude = 1 / 100, longitude = 9, height = None, gradient = None\<rparr>,
               \<lparr>latitude = 0, longitude = 9, height = None, gradient = None\<rparr>,
               \<lparr>latitude = - (1 / 100), longitude = 9, height = None, gradient = None\<rparr>]"
  let ?d = "\<lparr>coordinates = Some ?cs, markers = None, timetable = None\<rparr>"
  let ?s = "arcMeters (1 / 100)"
  have lo: "0 < ?s" using arcMeters_bounds(1)[of "1 / 100"] by simp
  have two: "?s < arcMeters (2 / 100)" by (simp add: arcMeters_def)
  have far: "distTo ?cs (- (1 / 100)) 9 0 = arcMeters (2 / 100)"
    "distTo ?cs (- (1 / 100)) 9 (Suc 0) = ?s" "distTo ?cs (- (1 / 100)) 9 (Suc (Suc 0)) = 0"
    using meridian_distance[of "1 / 100" "- (1 / 100)" 9] meridian_distance[of 0 "- (1 / 100)" 9]
      meridian_distance[of "- (1 / 100)" "- (1 / 100)" 9]
    by (simp_all add: distTo_def arcMeters_zero)
  have p: "findNearestRouteIndex (Some ?d) (1 / 100) 9 = 0"
    using equator_route_walks(1) by (simp add: findNearestRouteIndex_def findNearestCoordinateIndex_def)
  have m: "findNearestRouteIndex (Some ?d) (- (1 / 100)) 9 = 2"
    using lo two by (simp add: findNearestRouteIndex_def nearestLoop_step far)
  have seg: "(\<Sum>k = 0..<2. segmentLength ?cs k) = ?s + ?s"
    using equator_route_distances(7,8) by (simp add: numeral_2_eq_2)
  from distance_along_route[of "Some ?d" ?d ?cs "1 / 100" 9 "- (1 / 100)" 9] p m seg
  have a: "calculateDistanceAlongRoute (Some ?d) (1 / 100) 9 (- (1 / 100)) 9 = Inr (Some (?s + ?s))"
    by simp
  from distance_along_route[of "Some ?d" ?d ?cs "- (1 / 100)" 9 "1 / 100" 9] p m
  have b: "calculateDistanceAlongRoute (Some ?d) (- (1 / 100)) 9 (1 / 100) 9 = Inr (Some 0)"
    by simp
  from a b show ?thesis by simp
qed

end
